theory Spec2Isabelle
  imports Main
begin

section \<open>Values, exceptions and the environment of the GPG key manager\<close>

text \<open>
  The program (\<^verbatim>\<open>gpg_key_manager_core.py\<close>, class \<^verbatim>\<open>GPGKeyManager\<close>, and the command line
  front end \<^verbatim>\<open>GPG-KeyManager.py\<close>) is a sequence of subprocess calls, HTTP requests, console
  prompts and reads and writes of one JSON file. Every method is embedded as a function
  that takes the state of that environment (a \<open>world\<close>) and returns an outcome, a
  returned value or a raised exception, together with the world it leaves behind.

  Python values that the methods build, return, store in the JSON file or receive from the
  GitHub API are values of \<open>pyval\<close>. A dictionary is an association list in insertion order;
  all dictionaries of this program have string keys. Console output and logging change
  nothing that the program reads back and are left out. A string is a list of characters
  with code points below 256. JSON numbers with a fraction are not represented.
\<close>

datatype pyval =
    PNone
  | PBool bool
  | PInt int
  | PStr string
  | PList "pyval list"
  | PDict "(string \<times> pyval) list"

datatype exn =
    CalledProcessError "string list" int string
  | FileNotFoundError string
  | PermissionError string
  | TimeoutError
  | EOFError
  | ValueError string
  | UnicodeDecodeError
  | IndexError
  | KeyError string
  | TypeError string
  | AttributeError string
  | RequestException string
  | JSONDecodeError
  | RuntimeError string

datatype 'a outcome = Return 'a | Raise exn

text \<open>
  \<open>CalledProcessError cmd returncode stderr\<close> carries what \<^verbatim>\<open>subprocess.run\<close> stores in the
  exception. \<open>str_exn\<close> is Python's \<^verbatim>\<open>str(e)\<close>.
\<close>

fun nat_digits :: "nat \<Rightarrow> nat \<Rightarrow> string" where
  "nat_digits 0 n = []"
| "nat_digits (Suc fuel) n =
     (if n < 10 then [char_of (48 + n)]
      else nat_digits fuel (n div 10) @ [char_of (48 + n mod 10)])"

definition str_nat :: "nat \<Rightarrow> string" where
  "str_nat n = nat_digits (Suc n) n"

definition str_int :: "int \<Rightarrow> string" where
  "str_int i = (if i < 0 then CHR ''-'' # str_nat (nat (- i)) else str_nat (nat i))"

fun join :: "string \<Rightarrow> string list \<Rightarrow> string" where
  "join sep [] = []"
| "join sep [x] = x"
| "join sep (x # y # ys) = x @ sep @ join sep (y # ys)"

definition repr_str :: "string \<Rightarrow> string" where
  "repr_str s = [CHR 0x27] @ s @ [CHR 0x27]"

definition repr_list :: "string list \<Rightarrow> string" where
  "repr_list xs = ''['' @ join '', '' (map repr_str xs) @ '']''"

fun str_exn :: "exn \<Rightarrow> string" where
  "str_exn (CalledProcessError cmd rc err) =
     ''Command '' @ repr_list cmd @ '' returned non-zero exit status '' @ str_int rc @ ''.''"
| "str_exn (FileNotFoundError prog) =
     ''[Errno 2] No such file or directory: '' @ repr_str prog"
| "str_exn (PermissionError path) = ''[Errno 13] Permission denied: '' @ repr_str path"
| "str_exn TimeoutError = []"
| "str_exn EOFError = ''EOF when reading a line''"
| "str_exn (ValueError m) = m"
| "str_exn UnicodeDecodeError = ''codec can't decode byte: invalid start byte''"
| "str_exn IndexError = ''list index out of range''"
| "str_exn (KeyError k) = repr_str k"
| "str_exn (TypeError m) = m"
| "str_exn (AttributeError m) = m"
| "str_exn (RequestException m) = m"
| "str_exn JSONDecodeError = ''Expecting value: line 1 column 1 (char 0)''"
| "str_exn (RuntimeError m) = m"

text \<open>The exception classes that the handlers of the program name.\<close>

fun is_CalledProcessError :: "exn \<Rightarrow> bool" where
  "is_CalledProcessError (CalledProcessError cmd rc err) = True"
| "is_CalledProcessError e = False"

fun is_OSError :: "exn \<Rightarrow> bool" where
  "is_OSError (FileNotFoundError p) = True"
| "is_OSError (PermissionError p) = True"
| "is_OSError TimeoutError = True"
| "is_OSError e = False"


fun is_RequestException :: "exn \<Rightarrow> bool" where
  "is_RequestException (RequestException m) = True"
| "is_RequestException e = False"

subsection \<open>Dictionaries and truth values\<close>

definition dict_get :: "(string \<times> pyval) list \<Rightarrow> string \<Rightarrow> pyval option" where
  "dict_get d k = map_of d k"

fun dict_set :: "(string \<times> pyval) list \<Rightarrow> string \<Rightarrow> pyval \<Rightarrow> (string \<times> pyval) list" where
  "dict_set [] k v = [(k, v)]"
| "dict_set ((k', v') # d) k v =
     (if k' = k then (k, v) # d else (k', v') # dict_set d k v)"

fun dict_update :: "(string \<times> pyval) list \<Rightarrow> (string \<times> pyval) list \<Rightarrow> (string \<times> pyval) list" where
  "dict_update d [] = d"
| "dict_update d ((k, v) # kvs) = dict_update (dict_set d k v) kvs"

fun truthy :: "pyval \<Rightarrow> bool" where
  "truthy PNone = False"
| "truthy (PBool b) = b"
| "truthy (PInt i) = (i \<noteq> 0)"
| "truthy (PStr s) = (s \<noteq> [])"
| "truthy (PList xs) = (xs \<noteq> [])"
| "truthy (PDict d) = (d \<noteq> [])"

text \<open>\<^verbatim>\<open>config[k] = v\<close> on whatever \<^verbatim>\<open>load_config\<close> returned: only a dictionary accepts it.\<close>

fun setitem :: "pyval \<Rightarrow> string \<Rightarrow> pyval \<Rightarrow> pyval outcome" where
  "setitem (PDict d) k v = Return (PDict (dict_set d k v))"
| "setitem c k v = Raise (TypeError ''object does not support item assignment'')"

text \<open>\<^verbatim>\<open>x.get(k, default)\<close>: only a dictionary has the method.\<close>

fun getattr_get :: "pyval \<Rightarrow> string \<Rightarrow> pyval \<Rightarrow> pyval outcome" where
  "getattr_get (PDict d) k dflt = Return (case dict_get d k of None \<Rightarrow> dflt | Some v \<Rightarrow> v)"
| "getattr_get c k dflt = Raise (AttributeError ''object has no attribute get'')"

subsection \<open>The world\<close>

text \<open>
  \<^item> \<open>gpg_tool n args\<close> is what running \<^verbatim>\<open>gpg args\<close> does when it is the subprocess call
    number \<open>n\<close> of the run: the program cannot be started, or it exits with a return
    code and what it wrote to its standard output and its standard error. What it wrote is
    text, or bytes that are not text in the encoding of the locale. No operation modelled
    here lists keys after changing the key ring, so the key tool is an oracle.
  \<^item> \<open>git_present\<close> says whether \<^verbatim>\<open>git\<close> can be started. \<open>git_global\<close> is Git's global
    configuration file: the values of every key, in the order of their lines (a key can
    have several). \<open>git_config_writable\<close> says whether Git can write that file. Only the
    global scope is modelled: the run is taken to be outside any repository.
  \<^item> \<open>proc_calls\<close> is the trace of the argument vectors given to \<^verbatim>\<open>subprocess.run\<close>.
  \<^item> \<open>store\<close> is the directory \<^verbatim>\<open>~/.gpgkeymanager\<close>: absent, or present with the file
    \<^verbatim>\<open>gpgkeymanager.json\<close> (absent, malformed, or a JSON document) and a flag for other
    entries in it; \<open>store_writable\<close> says whether that location can be written.
  \<^item> \<open>console_in\<close> is what the user will type: each line with the seconds the user takes
    to type it. \<open>clock\<close> counts seconds.
  \<^item> \<open>github_api n req\<close> is the answer to \<open>req\<close> when it is request number \<open>n\<close> of the
    run; \<open>http_calls\<close> is the trace of requests sent.
\<close>

datatype written = Text string | Undecodable

datatype proc_result = NoSuchProgram | Exited int written written

datatype file_content = Malformed | Doc pyval

datatype config_dir = NoDir | Dir "file_content option" bool

datatype http_method = GET | POST

record request =
  req_method :: http_method
  req_url :: string
  req_headers :: "(string \<times> string) list"
  req_json :: "pyval option"

datatype http_result = ConnectionFailed string | Response nat "pyval option" string

record world =
  gpg_tool :: "nat \<Rightarrow> string list \<Rightarrow> proc_result"
  git_present :: bool
  git_global :: "string \<Rightarrow> string list"
  git_config_writable :: bool
  proc_calls :: "string list list"
  store :: config_dir
  store_writable :: bool
  console_in :: "(nat \<times> string) list"
  clock :: nat
  github_api :: "nat \<Rightarrow> request \<Rightarrow> http_result"
  http_calls :: "request list"

subsection \<open>Subprocesses\<close>

text \<open>
  Git as the program uses it, with the return codes of the manual of \<^verbatim>\<open>git config\<close>.
  \<^verbatim>\<open>config --global --unset KEY\<close> removes a key that has one value; it changes nothing and
  returns 5 when the key is not set or has several values, and 4 when the file cannot be
  written. \<^verbatim>\<open>config --global KEY VALUE\<close> sets the key to that one value; it changes nothing
  and returns 5 when the key has several values, and 4 when the file cannot be written.
  \<^verbatim>\<open>config --get KEY\<close> prints the last value of the key and a newline; it returns 1 when
  the key is not set.
\<close>

definition git_usage :: proc_result where
  "git_usage = Exited 129 (Text []) (Text ''usage: git config [<options>]'')"

fun git_run :: "string list \<Rightarrow> world \<Rightarrow> proc_result \<times> world" where
  "git_run [c, g, u, k] w =
     (if c = ''config'' \<and> g = ''--global'' \<and> u = ''--unset'' then
        (if \<not> git_config_writable w then
           (Exited 4 (Text []) (Text ''error: could not lock config file''), w)
         else if length (git_global w k) = 1 then
           (Exited 0 (Text []) (Text []), w\<lparr>git_global := (git_global w)(k := [])\<rparr>)
         else if git_global w k = [] then (Exited 5 (Text []) (Text []), w)
         else (Exited 5 (Text []) (Text ''warning: key has multiple values''), w))
      else if c = ''config'' \<and> g = ''--global'' then
        (if \<not> git_config_writable w then
           (Exited 4 (Text []) (Text ''error: could not lock config file''), w)
         else if length (git_global w u) > 1 then
           (Exited 5 (Text [])
              (Text ''warning: key has multiple values; cannot overwrite with a single value''), w)
         else (Exited 0 (Text []) (Text []), w\<lparr>git_global := (git_global w)(u := [k])\<rparr>))
      else (git_usage, w))"
| "git_run [c, g, k] w =
     (if c = ''config'' \<and> g = ''--get'' then
        (if git_global w k = [] then (Exited 1 (Text []) (Text []), w)
         else (Exited 0 (Text (last (git_global w k) @ [CHR 0x0A])) (Text []), w))
      else (git_usage, w))"
| "git_run args w = (git_usage, w)"

text \<open>
  \<^verbatim>\<open>subprocess.run(argv, check=check)\<close> in the three ways the program calls it: without
  capturing (\<open>NoCapture\<close>), with \<^verbatim>\<open>capture_output=True\<close> (\<open>BytesMode\<close>), and with
  \<^verbatim>\<open>capture_output=True, text=True\<close> (\<open>TextMode\<close>).
  \<^item> An argument with a NUL character raises \<^verbatim>\<open>ValueError\<close> before anything is started.
  \<^item> A program that cannot be started raises \<^verbatim>\<open>FileNotFoundError\<close>.
  \<^item> In text mode both streams are decoded, which raises \<^verbatim>\<open>UnicodeDecodeError\<close> for output
    that is not text, and every CR LF and every CR becomes LF.
  \<^item> With \<^verbatim>\<open>check=True\<close> a non-zero return code then raises \<^verbatim>\<open>CalledProcessError\<close>.
  The result is (return code, stdout, stderr); the program reads the streams only in text
  mode, in the other modes they are given as empty.
\<close>

datatype capture = NoCapture | BytesMode | TextMode

fun universal_newlines :: "string \<Rightarrow> string" where
  "universal_newlines [] = []"
| "universal_newlines [x] = (if x = CHR 0x0D then [CHR 0x0A] else [x])"
| "universal_newlines (x # y # ys) =
     (if x = CHR 0x0D \<and> y = CHR 0x0A then CHR 0x0A # universal_newlines ys
      else if x = CHR 0x0D then CHR 0x0A # universal_newlines (y # ys)
      else x # universal_newlines (y # ys))"

definition decode :: "capture \<Rightarrow> written \<Rightarrow> string outcome" where
  "decode mode x =
     (case mode of
        TextMode \<Rightarrow>
          (case x of
             Text s \<Rightarrow> Return (universal_newlines s)
           | Undecodable \<Rightarrow> Raise UnicodeDecodeError)
      | _ \<Rightarrow> Return [])"

definition completed ::
  "capture \<Rightarrow> bool \<Rightarrow> string list \<Rightarrow> proc_result \<Rightarrow> (int \<times> string \<times> string) outcome" where
  "completed mode check argv r =
     (case r of
        NoSuchProgram \<Rightarrow> Raise (FileNotFoundError (hd argv))
      | Exited rc out err \<Rightarrow>
          (case decode mode out of
             Raise e \<Rightarrow> Raise e
           | Return stdout \<Rightarrow>
               (case decode mode err of
                  Raise e \<Rightarrow> Raise e
                | Return stderr \<Rightarrow>
                    if check \<and> rc \<noteq> 0 then Raise (CalledProcessError argv rc stderr)
                    else Return (rc, stdout, stderr))))"

definition has_nul :: "string list \<Rightarrow> bool" where
  "has_nul argv \<longleftrightarrow> list_ex (\<lambda>a. CHR 0x00 \<in> set a) argv"

definition subprocess_run ::
  "string list \<Rightarrow> capture \<Rightarrow> bool \<Rightarrow> world \<Rightarrow> (int \<times> string \<times> string) outcome \<times> world" where
  "subprocess_run argv mode check w =
     (let w1 = w\<lparr>proc_calls := proc_calls w @ [argv]\<rparr> in
      case argv of
        [] \<Rightarrow> (Raise IndexError, w)
      | prog # args \<Rightarrow>
          if has_nul argv then (Raise (ValueError ''embedded null byte''), w1)
          else if prog = ''gpg'' then
            (completed mode check argv (gpg_tool w (length (proc_calls w)) args), w1)
          else if prog = ''git'' \<and> git_present w then
            (case git_run args w1 of (r, w2) \<Rightarrow> (completed mode check argv r, w2))
          else (completed mode check argv NoSuchProgram, w1))"

subsection \<open>The Local Config Store\<close>

text \<open>\<^verbatim>\<open>CONFIG_DIR.mkdir(parents=True, exist_ok=True)\<close>\<close>

definition mkdir_config_dir :: "world \<Rightarrow> unit outcome \<times> world" where
  "mkdir_config_dir w =
     (case store w of
        Dir f other \<Rightarrow> (Return (), w)
      | NoDir \<Rightarrow>
          if store_writable w then (Return (), w\<lparr>store := Dir None False\<rparr>)
          else (Raise (PermissionError ''.gpgkeymanager''), w))"

text \<open>
  The body of \<^verbatim>\<open>load_config\<close> inside its \<^verbatim>\<open>try\<close>: \<^verbatim>\<open>json.load\<close> returns the document of the
  file, whatever JSON value it is, and raises \<^verbatim>\<open>JSONDecodeError\<close> on a malformed file.
\<close>

definition load_config_try :: "world \<Rightarrow> pyval outcome \<times> world" where
  "load_config_try w =
     (case mkdir_config_dir w of
        (Raise e, w1) \<Rightarrow> (Raise e, w1)
      | (Return u, w1) \<Rightarrow>
          (case store w1 of
             NoDir \<Rightarrow> (Return (PDict []), w1)
           | Dir None other \<Rightarrow> (Return (PDict []), w1)
           | Dir (Some Malformed) other \<Rightarrow> (Raise JSONDecodeError, w1)
           | Dir (Some (Doc v)) other \<Rightarrow> (Return v, w1)))"

text \<open>Both handlers of \<^verbatim>\<open>load_config\<close> return the empty dictionary.\<close>

definition load_config :: "world \<Rightarrow> pyval outcome \<times> world" where
  "load_config w =
     (case load_config_try w of
        (Return v, w1) \<Rightarrow> (Return v, w1)
      | (Raise e, w1) \<Rightarrow> (Return (PDict []), w1))"

definition save_config_try :: "pyval \<Rightarrow> world \<Rightarrow> unit outcome \<times> world" where
  "save_config_try config w =
     (case mkdir_config_dir w of
        (Raise e, w1) \<Rightarrow> (Raise e, w1)
      | (Return u, w1) \<Rightarrow>
          (case store w1 of
             NoDir \<Rightarrow> (Raise (FileNotFoundError ''gpgkeymanager.json''), w1)
           | Dir f other \<Rightarrow>
               if store_writable w1 then (Return (), w1\<lparr>store := Dir (Some (Doc config)) other\<rparr>)
               else (Raise (PermissionError ''gpgkeymanager.json''), w1)))"

definition save_config :: "pyval \<Rightarrow> world \<Rightarrow> unit outcome \<times> world" where
  "save_config config w =
     (case save_config_try config w of
        (Return u, w1) \<Rightarrow> (Return (), w1)
      | (Raise e, w1) \<Rightarrow>
          (Raise (RuntimeError (''Failed to save configuration: '' @ str_exn e)), w1))"

definition update_key_config ::
  "string \<Rightarrow> string \<Rightarrow> string \<Rightarrow> string \<Rightarrow> bool \<Rightarrow> bool \<Rightarrow> world \<Rightarrow> unit outcome \<times> world" where
  "update_key_config key_id name comment expire git_configured github_configured w =
     save_config
       (PDict [(''gpg_installed'', PBool True),
               (''key_configured'', PBool True),
               (''git_configured'', PBool git_configured),
               (''gpg_key_id'', PStr key_id),
               (''github_key_added'', PBool github_configured)]) w"

text \<open>
  \<^verbatim>\<open>CONFIG_FILE.unlink()\<close> and \<^verbatim>\<open>CONFIG_DIR.rmdir()\<close>. \<^verbatim>\<open>rmdir\<close> raises an \<^verbatim>\<open>OSError\<close> when
  the directory still has entries or cannot be removed; \<^verbatim>\<open>clear_config\<close> catches it.
\<close>

definition unlink_config_file :: "world \<Rightarrow> unit outcome \<times> world" where
  "unlink_config_file w =
     (case store w of
        NoDir \<Rightarrow> (Raise (FileNotFoundError ''gpgkeymanager.json''), w)
      | Dir None other \<Rightarrow> (Raise (FileNotFoundError ''gpgkeymanager.json''), w)
      | Dir (Some f) other \<Rightarrow>
          if store_writable w then (Return (), w\<lparr>store := Dir None other\<rparr>)
          else (Raise (PermissionError ''gpgkeymanager.json''), w))"

definition rmdir_config_dir :: "world \<Rightarrow> unit outcome \<times> world" where
  "rmdir_config_dir w =
     (case store w of
        NoDir \<Rightarrow> (Raise (FileNotFoundError ''.gpgkeymanager''), w)
      | Dir f other \<Rightarrow>
          if f = None \<and> \<not> other \<and> store_writable w then (Return (), w\<lparr>store := NoDir\<rparr>)
          else (Raise (PermissionError ''.gpgkeymanager''), w))"

definition git_unset :: "string \<Rightarrow> string list" where
  "git_unset k = [''git'', ''config'', ''--global'', ''--unset'', k]"

text \<open>The block of \<^verbatim>\<open>clear_config\<close> that removes the file and, when it can, the directory.\<close>

definition remove_config_files :: "world \<Rightarrow> unit outcome \<times> world" where
  "remove_config_files w =
     (case store w of
        NoDir \<Rightarrow> (Return (), w)
      | Dir f other \<Rightarrow>
          (case (if f \<noteq> None then unlink_config_file w else (Return (), w)) of
             (Raise e, w1) \<Rightarrow> (Raise e, w1)
           | (Return u, w1) \<Rightarrow>
               (case rmdir_config_dir w1 of
                  (Return u, w2) \<Rightarrow> (Return (), w2)
                | (Raise e, w2) \<Rightarrow>
                    if is_OSError e then (Return (), w2) else (Raise e, w2))))"

definition clear_config_try :: "world \<Rightarrow> unit outcome \<times> world" where
  "clear_config_try w =
     (case subprocess_run (git_unset ''user.signingkey'') TextMode False w of
        (Raise e, w1) \<Rightarrow> (Raise e, w1)
      | (Return r1, w1) \<Rightarrow>
     (case subprocess_run (git_unset ''commit.gpgsign'') TextMode False w1 of
        (Raise e, w2) \<Rightarrow> (Raise e, w2)
      | (Return r2, w2) \<Rightarrow>
     (case subprocess_run (git_unset ''tag.gpgsign'') TextMode False w2 of
        (Raise e, w3) \<Rightarrow> (Raise e, w3)
      | (Return r3, w3) \<Rightarrow>
     (case remove_config_files w3 of
        (Raise e, w4) \<Rightarrow> (Raise e, w4)
      | (Return u, w4) \<Rightarrow> update_key_config [] [] [] [] False False w4))))"

definition clear_config :: "world \<Rightarrow> unit outcome \<times> world" where
  "clear_config w =
     (case clear_config_try w of
        (Return u, w1) \<Rightarrow> (Return (), w1)
      | (Raise e, w1) \<Rightarrow>
          (Raise (RuntimeError (''Failed to clear configuration: '' @ str_exn e)), w1))"

subsection \<open>Python string methods\<close>

definition LF :: char where "LF = CHR 0x0A"
definition CR :: char where "CR = CHR 0x0D"

text \<open>\<^verbatim>\<open>str.isspace\<close> and the line boundaries of \<^verbatim>\<open>str.splitlines\<close>, on 8-bit characters.\<close>

definition is_space :: "char \<Rightarrow> bool" where
  "is_space c \<longleftrightarrow>
     c \<in> set [CHR 0x09, CHR 0x0A, CHR 0x0B, CHR 0x0C, CHR 0x0D, CHR 0x1C, CHR 0x1D,
              CHR 0x1E, CHR 0x1F, CHR 0x20, CHR 0x85, CHR 0xA0]"

definition is_linebreak :: "char \<Rightarrow> bool" where
  "is_linebreak c \<longleftrightarrow>
     c \<in> set [CHR 0x0A, CHR 0x0B, CHR 0x0C, CHR 0x0D, CHR 0x1C, CHR 0x1D, CHR 0x1E, CHR 0x85]"

definition startswith :: "string \<Rightarrow> string \<Rightarrow> bool" where
  "startswith p s \<longleftrightarrow> take (length p) s = p"

text \<open>\<^verbatim>\<open>s.split(c)\<close> for a separator of one character: never the empty list.\<close>

fun split_char :: "char \<Rightarrow> string \<Rightarrow> string list" where
  "split_char c [] = [[]]"
| "split_char c (x # xs) =
     (if x = c then [] # split_char c xs
      else (case split_char c xs of
              [] \<Rightarrow> [[x]]
            | f # fs \<Rightarrow> (x # f) # fs))"

text \<open>\<^verbatim>\<open>s.split(sep)\<close> for a longer separator (the program splits on \<^verbatim>\<open>'uid'\<close>).\<close>

function split_str :: "string \<Rightarrow> string \<Rightarrow> string list" where
  "split_str sep [] = [[]]"
| "split_str sep (x # xs) =
     (if sep \<noteq> [] \<and> startswith sep (x # xs)
      then [] # split_str sep (drop (length sep) (x # xs))
      else (case split_str sep xs of
              [] \<Rightarrow> [[x]]
            | f # fs \<Rightarrow> (x # f) # fs))"
  by pat_completeness auto
termination
  by (relation "measure (\<lambda>(sep, s). length s)") auto

text \<open>\<^verbatim>\<open>s.split()\<close>: the words between runs of white space.\<close>

function split_ws :: "string \<Rightarrow> string list" where
  "split_ws [] = []"
| "split_ws (x # xs) =
     (if is_space x then split_ws xs
      else takeWhile (\<lambda>c. \<not> is_space c) (x # xs) # split_ws (dropWhile (\<lambda>c. \<not> is_space c) xs))"
  by pat_completeness auto
termination
  by (relation "measure length") (auto simp: length_dropWhile_le less_Suc_eq_le)

fun splitlines_from :: "string \<Rightarrow> string \<Rightarrow> string list" where
  "splitlines_from cur [] = (if cur = [] then [] else [cur])"
| "splitlines_from cur [x] = (if is_linebreak x then [cur] else [cur @ [x]])"
| "splitlines_from cur (x # y # ys) =
     (if x = CR \<and> y = LF then cur # splitlines_from [] ys
      else if is_linebreak x then cur # splitlines_from [] (y # ys)
      else splitlines_from (cur @ [x]) (y # ys))"

definition splitlines :: "string \<Rightarrow> string list" where
  "splitlines s = splitlines_from [] s"

definition strip_chars :: "string \<Rightarrow> string \<Rightarrow> string" where
  "strip_chars cs s =
     rev (dropWhile (\<lambda>c. c \<in> set cs) (rev (dropWhile (\<lambda>c. c \<in> set cs) s)))"

definition strip :: "string \<Rightarrow> string" where
  "strip s = rev (dropWhile is_space (rev (dropWhile is_space s)))"

definition lower_char :: "char \<Rightarrow> char" where
  "lower_char c =
     (case map_of (zip ''ABCDEFGHIJKLMNOPQRSTUVWXYZ'' ''abcdefghijklmnopqrstuvwxyz'') c of
        None \<Rightarrow> c | Some l \<Rightarrow> l)"

definition upper_char :: "char \<Rightarrow> char" where
  "upper_char c =
     (case map_of (zip ''abcdefghijklmnopqrstuvwxyz'' ''ABCDEFGHIJKLMNOPQRSTUVWXYZ'') c of
        None \<Rightarrow> c | Some u \<Rightarrow> u)"

definition lower :: "string \<Rightarrow> string" where "lower s = map lower_char s"
definition upper :: "string \<Rightarrow> string" where "upper s = map upper_char s"

text \<open>\<^verbatim>\<open>s.replace(c, '')\<close> for a single character \<open>c\<close>.\<close>

definition remove_char :: "char \<Rightarrow> string \<Rightarrow> string" where
  "remove_char c s = filter (\<lambda>x. x \<noteq> c) s"

text \<open>\<^verbatim>\<open>xs[i]\<close> on a list of fields, for \<open>i \<ge> 0\<close>.\<close>

definition getitem :: "'a list \<Rightarrow> nat \<Rightarrow> 'a outcome" where
  "getitem xs i = (if i < length xs then Return (xs ! i) else Raise IndexError)"





section \<open>Key operations and the status aggregator\<close>

definition check_gpg_installed :: "world \<Rightarrow> bool outcome \<times> world" where
  "check_gpg_installed w =
     (case subprocess_run [''gpg'', ''--version''] BytesMode True w of
        (Return r, w1) \<Rightarrow> (Return True, w1)
      | (Raise e, w1) \<Rightarrow>
          if is_CalledProcessError e then (Return False, w1) else (Raise e, w1))"

text \<open>
  The loop of \<^verbatim>\<open>verify_github_key\<close> and \<^verbatim>\<open>connect_to_github\<close> over the lines of
  \<^verbatim>\<open>gpg --fingerprint\<close>: the first line with the prefix decides.
\<close>

fun key_fingerprint :: "string list \<Rightarrow> string outcome" where
  "key_fingerprint [] = Return []"
| "key_fingerprint (line # ls) =
     (if startswith ''      Key fingerprint = '' line then
        (case getitem (split_char CHR ''='' line) 1 of
           Raise e \<Rightarrow> Raise e
         | Return f \<Rightarrow> Return (strip f))
      else key_fingerprint ls)"

definition verify_github_key_try :: "string \<Rightarrow> world \<Rightarrow> pyval outcome \<times> world" where
  "verify_github_key_try key_id w =
     (case subprocess_run [''gpg'', ''--armor'', ''--export'', key_id] TextMode True w of
        (Raise e, w1) \<Rightarrow> (Raise e, w1)
      | (Return (rc, public_key, err), w1) \<Rightarrow>
     (case subprocess_run [''gpg'', ''--fingerprint'', key_id] TextMode True w1 of
        (Raise e, w2) \<Rightarrow> (Raise e, w2)
      | (Return (rc2, out, err2), w2) \<Rightarrow>
     (case key_fingerprint (split_char LF out) of
        Raise e \<Rightarrow> (Raise e, w2)
      | Return fingerprint \<Rightarrow>
          (Return (PDict [(''public_key'', PStr public_key),
                          (''fingerprint'', PStr fingerprint),
                          (''github_configured'', PBool False)]), w2))))"

definition verify_github_key :: "string \<Rightarrow> world \<Rightarrow> pyval outcome \<times> world" where
  "verify_github_key key_id w =
     (case verify_github_key_try key_id w of
        (Return d, w1) \<Rightarrow> (Return d, w1)
      | (Raise e, w1) \<Rightarrow>
          if is_CalledProcessError e then
            (Return (PDict [(''public_key'', PStr []),
                            (''fingerprint'', PStr []),
                            (''github_configured'', PBool False)]), w1)
          else (Raise e, w1))"

text \<open>The loop of \<^verbatim>\<open>get_gpg_key_id\<close>: \<open>None\<close> is Python's \<^verbatim>\<open>None\<close>.\<close>

fun first_secret_key_id :: "string list \<Rightarrow> string option" where
  "first_secret_key_id [] = None"
| "first_secret_key_id (line # ls) =
     (if startswith ''sec'' line then
        (let key_parts = split_ws line in
         if length key_parts > 1 then
           Some (last (split_char CHR ''/'' (strip_chars ''[]'' (key_parts ! 1))))
         else first_secret_key_id ls)
      else first_secret_key_id ls)"

definition list_secret_keys_long :: "string list" where
  "list_secret_keys_long = [''gpg'', ''--list-secret-keys'', ''--keyid-format=long'']"

definition get_gpg_key_id :: "world \<Rightarrow> string option outcome \<times> world" where
  "get_gpg_key_id w =
     (case subprocess_run list_secret_keys_long TextMode True w of
        (Return (rc, out, err), w1) \<Rightarrow> (Return (first_secret_key_id (split_char LF out)), w1)
      | (Raise e, w1) \<Rightarrow>
          if is_CalledProcessError e then (Return None, w1) else (Raise e, w1))"

text \<open>
  The loop of \<^verbatim>\<open>get_gpg_key_details\<close> with its two variables \<^verbatim>\<open>details\<close> and
  \<^verbatim>\<open>key_found\<close>. Reading a field that the line does not have raises \<^verbatim>\<open>IndexError\<close>.
\<close>

definition sec_line_details ::
  "string list \<Rightarrow> string \<Rightarrow> (string \<times> pyval) list \<Rightarrow> (string \<times> pyval) list outcome" where
  "sec_line_details key_parts current_key_id details =
     (let d1 = dict_set details ''primary_key'' (PStr current_key_id);
          d2 = dict_set d1 ''primary_type'' (PStr (hd (split_char CHR ''/'' (key_parts ! 1)))) in
      case getitem key_parts 2 of
        Raise e \<Rightarrow> Raise e
      | Return key_size \<Rightarrow>
          (case getitem key_parts 3 of
             Raise e \<Rightarrow> Raise e
           | Return created \<Rightarrow>
               Return (dict_set (dict_set d2 ''primary_size'' (PStr key_size))
                         ''primary_created'' (PStr created))))"

definition uid_line_details ::
  "string \<Rightarrow> (string \<times> pyval) list \<Rightarrow> (string \<times> pyval) list outcome" where
  "uid_line_details line details =
     (case getitem (split_str ''uid'' line) 1 of
        Raise e \<Rightarrow> Raise e
      | Return rest \<Rightarrow>
          (let uid_parts = strip rest;
               owner_parts = strip (last (split_char CHR '']'' uid_parts));
               name_parts = strip (hd (split_char CHR ''<'' owner_parts)) in
           Return (dict_set details ''owner'' (PStr name_parts))))"

definition ssb_line_details :: "string \<Rightarrow> (string \<times> pyval) list \<Rightarrow> (string \<times> pyval) list" where
  "ssb_line_details line details =
     (let subkey_parts = split_ws line in
      if length subkey_parts > 2 then
        (let d1 = dict_set details ''subkey_type''
                    (PStr (hd (split_char CHR ''/'' (subkey_parts ! 1))));
             d2 = dict_set d1 ''subkey_size'' (PStr (subkey_parts ! 2)) in
         if length subkey_parts > 3 then dict_set d2 ''subkey_created'' (PStr (subkey_parts ! 3))
         else d2)
      else details)"

fun key_details_loop ::
  "string \<Rightarrow> string list \<Rightarrow> (string \<times> pyval) list \<Rightarrow> bool \<Rightarrow> (string \<times> pyval) list outcome" where
  "key_details_loop key_id [] details key_found = Return details"
| "key_details_loop key_id (line # ls) details key_found =
     (if startswith ''sec'' line then
        (let key_parts = split_ws line in
         if length key_parts > 1 then
           (let current_key = strip_chars ''[]'' (key_parts ! 1);
                current_key_id = last (split_char CHR ''/'' current_key) in
            if key_id = current_key_id then
              (case sec_line_details key_parts current_key_id details of
                 Raise e \<Rightarrow> Raise e
               | Return d \<Rightarrow> key_details_loop key_id ls d True)
            else key_details_loop key_id ls details key_found)
         else key_details_loop key_id ls details key_found)
      else if key_found \<and> startswith ''uid'' line then
        (case uid_line_details line details of
           Raise e \<Rightarrow> Raise e
         | Return d \<Rightarrow> key_details_loop key_id ls d key_found)
      else if key_found \<and> startswith ''ssb'' line then
        key_details_loop key_id ls (ssb_line_details line details) key_found
      else key_details_loop key_id ls details key_found)"

definition get_gpg_key_details :: "string \<Rightarrow> world \<Rightarrow> pyval outcome \<times> world" where
  "get_gpg_key_details key_id w =
     (case subprocess_run list_secret_keys_long TextMode True w of
        (Return (rc, out, err), w1) \<Rightarrow>
          (case key_details_loop key_id (split_char LF out) [] False of
             Return details \<Rightarrow> (Return (PDict details), w1)
           | Raise e \<Rightarrow>
               if is_CalledProcessError e then (Return (PDict []), w1) else (Raise e, w1))
      | (Raise e, w1) \<Rightarrow>
          if is_CalledProcessError e then (Return (PDict []), w1) else (Raise e, w1))"

text \<open>\<^verbatim>\<open>d[k]\<close> and \<^verbatim>\<open>"".join(x)\<close> on a Python value.\<close>

fun py_getitem :: "pyval \<Rightarrow> string \<Rightarrow> pyval outcome" where
  "py_getitem (PDict d) k = (case dict_get d k of None \<Rightarrow> Raise (KeyError k) | Some v \<Rightarrow> Return v)"
| "py_getitem c k = Raise (TypeError ''indices must be integers'')"

fun str_items :: "pyval list \<Rightarrow> string outcome" where
  "str_items [] = Return []"
| "str_items (PStr s # xs) =
     (case str_items xs of Raise e \<Rightarrow> Raise e | Return r \<Rightarrow> Return (s @ r))"
| "str_items (x # xs) = Raise (TypeError ''sequence item: expected str instance'')"

fun py_join_empty :: "pyval \<Rightarrow> string outcome" where
  "py_join_empty (PStr s) = Return s"
| "py_join_empty (PList xs) = str_items xs"
| "py_join_empty (PDict d) = Return (concat (map fst d))"
| "py_join_empty c = Raise (TypeError ''can only join an iterable'')"

text \<open>
  The GitHub sub-check of \<^verbatim>\<open>check_gpg_status\<close>: the inner \<^verbatim>\<open>try\<close> with its
  \<^verbatim>\<open>except Exception\<close>. It returns the updated status and never raises.
\<close>

definition github_subcheck ::
  "string \<Rightarrow> (string \<times> pyval) list \<Rightarrow> world \<Rightarrow> (string \<times> pyval) list \<times> world" where
  "github_subcheck key_id status w =
     (let failed = dict_set (dict_set status ''public_key'' (PDict [])) ''github_configured''
                     (PBool False) in
      case verify_github_key key_id w of
        (Raise e, w1) \<Rightarrow> (failed, w1)
      | (Return github_key_details, w1) \<Rightarrow>
          (case py_getitem github_key_details ''public_key'' of
             Raise e \<Rightarrow> (failed, w1)
           | Return pk \<Rightarrow>
               (case py_join_empty pk of
                  Raise e \<Rightarrow> (failed, w1)
                | Return s \<Rightarrow>
                    (dict_set (dict_set status ''public_key'' (PStr (LF # s)))
                       ''github_configured'' (PBool (truthy github_key_details)), w1))))"

text \<open>The Git check of \<^verbatim>\<open>check_gpg_status\<close>: only \<^verbatim>\<open>CalledProcessError\<close> is caught.\<close>

definition git_subcheck ::
  "string \<Rightarrow> (string \<times> pyval) list \<Rightarrow> world \<Rightarrow> (string \<times> pyval) list outcome \<times> world" where
  "git_subcheck key_id status w =
     (case subprocess_run [''git'', ''config'', ''--get'', ''user.signingkey''] TextMode True w of
        (Return (rc, out, err), w1) \<Rightarrow>
          (if strip out = key_id then (Return (dict_set status ''git_configured'' (PBool True)), w1)
           else (Return status, w1))
      | (Raise e, w1) \<Rightarrow>
          if is_CalledProcessError e then (Return status, w1) else (Raise e, w1))"

text \<open>What \<^verbatim>\<open>check_gpg_status\<close> does once \<^verbatim>\<open>get_gpg_key_id\<close> has returned a key id.\<close>

definition status_of_key ::
  "string \<Rightarrow> (string \<times> pyval) list \<Rightarrow> world \<Rightarrow> (string \<times> pyval) list outcome \<times> world" where
  "status_of_key key_id status w =
     (let status1 = dict_set status ''key_configured'' (PBool True) in
      case get_gpg_key_details key_id w of
        (Raise e, w1) \<Rightarrow> (Raise e, w1)
      | (Return details, w1) \<Rightarrow>
     (case git_subcheck key_id (dict_set status1 ''key_details'' details) w1 of
        (Raise e, w2) \<Rightarrow> (Raise e, w2)
      | (Return status2, w2) \<Rightarrow>
     (case github_subcheck key_id status2 w2 of
        (status3, w3) \<Rightarrow>
     (case load_config w3 of
        (Raise e, w4) \<Rightarrow> (Raise e, w4)
      | (Return config, w4) \<Rightarrow>
     (case getattr_get config ''github_key_added'' (PBool False) of
        Raise e \<Rightarrow> (Raise e, w4)
      | Return added \<Rightarrow>
     (case getattr_get config ''last_config_update'' PNone of
        Raise e \<Rightarrow> (Raise e, w4)
      | Return upd \<Rightarrow>
          (Return (dict_update status3 [(''github_key_added'', added), (''last_update'', upd)]),
           w4)))))))"

definition check_gpg_status_try :: "world \<Rightarrow> (string \<times> pyval) list outcome \<times> world" where
  "check_gpg_status_try w =
     (case check_gpg_installed w of
        (Raise e, w1) \<Rightarrow> (Raise e, w1)
      | (Return installed, w1) \<Rightarrow>
          (let status = [(''gpg_installed'', PBool installed)] in
           if installed then
             (case get_gpg_key_id w1 of
                (Raise e, w2) \<Rightarrow> (Raise e, w2)
              | (Return None, w2) \<Rightarrow> (Return status, w2)
              | (Return (Some key_id), w2) \<Rightarrow>
                  if key_id \<noteq> [] then status_of_key key_id status w2
                  else (Return status, w2))
           else (Return status, w1)))"

definition error_status :: "exn \<Rightarrow> (string \<times> pyval) list" where
  "error_status e =
     [(''error'', PStr (str_exn e)),
      (''gpg_installed'', PBool False),
      (''key_configured'', PBool False),
      (''git_configured'', PBool False),
      (''github_configured'', PBool False),
      (''key_details'', PDict []),
      (''github_key_added'', PBool False),
      (''last_update'', PNone)]"

definition check_gpg_status :: "world \<Rightarrow> (string \<times> pyval) list \<times> world" where
  "check_gpg_status w =
     (case check_gpg_status_try w of
        (Return status, w1) \<Rightarrow> (status, w1)
      | (Raise e, w1) \<Rightarrow> (error_status e, w1))"

section \<open>Deleting a key and configuring Git\<close>








section \<open>Console, clock and the GitHub API\<close>

text \<open>
  \<^verbatim>\<open>input()\<close> waits for the next line however long the user takes; at the end of the input
  it raises \<^verbatim>\<open>EOFError\<close>. \<open>input_alarm n\<close> is \<^verbatim>\<open>input()\<close> between \<^verbatim>\<open>signal.alarm(n)\<close> and
  \<^verbatim>\<open>signal.alarm(0)\<close> with a handler that raises \<^verbatim>\<open>TimeoutError\<close>: a line that takes \<open>n\<close>
  seconds or more is not read.
\<close>

definition py_input :: "world \<Rightarrow> string outcome \<times> world" where
  "py_input w =
     (case console_in w of
        [] \<Rightarrow> (Raise EOFError, w)
      | (delay, line) # rest \<Rightarrow>
          (Return line, w\<lparr>console_in := rest, clock := clock w + delay\<rparr>))"

definition input_alarm :: "nat \<Rightarrow> world \<Rightarrow> string outcome \<times> world" where
  "input_alarm n w =
     (case console_in w of
        [] \<Rightarrow> (Raise EOFError, w)
      | (delay, line) # rest \<Rightarrow>
          if delay < n then (Return line, w\<lparr>console_in := rest, clock := clock w + delay\<rparr>)
          else (Raise TimeoutError,
                w\<lparr>console_in := (delay - n, line) # rest, clock := clock w + n\<rparr>))"

text \<open>
  \<^verbatim>\<open>datetime.now().isoformat()\<close>: the calendar is not modelled, the time stamp is the
  reading of the clock in seconds after the letter T.
\<close>

definition isoformat :: "nat \<Rightarrow> string" where
  "isoformat t = CHR ''T'' # str_nat t"

text \<open>The countdown of \<^verbatim>\<open>connect_github\<close>: \<^verbatim>\<open>time.sleep(1)\<close> until the end time.\<close>

function countdown :: "nat \<Rightarrow> world \<Rightarrow> world" where
  "countdown end_time w =
     (if clock w < end_time then countdown end_time (w\<lparr>clock := clock w + 1\<rparr>) else w)"
  by pat_completeness auto
termination
  by (relation "measure (\<lambda>(end_time, w). end_time - clock w)") auto

definition http_request ::
  "request \<Rightarrow> world \<Rightarrow> (nat \<times> pyval option \<times> string) outcome \<times> world" where
  "http_request rq w =
     (let w1 = w\<lparr>http_calls := http_calls w @ [rq]\<rparr> in
      case github_api w (length (http_calls w)) rq of
        ConnectionFailed m \<Rightarrow> (Raise (RequestException m), w1)
      | Response code body text \<Rightarrow> (Return (code, body, text), w1))"

text \<open>\<^verbatim>\<open>response.json()\<close>: the error of \<^verbatim>\<open>requests\<close> for a body that is not JSON.\<close>

definition response_json :: "pyval option \<Rightarrow> pyval outcome" where
  "response_json body =
     (case body of
        None \<Rightarrow> Raise (RequestException ''Expecting value: line 1 column 1 (char 0)'')
      | Some v \<Rightarrow> Return v)"

definition api_headers :: "string \<Rightarrow> (string \<times> string) list" where
  "api_headers token =
     [(''Authorization'', ''token '' @ token), (''Accept'', ''application/vnd.github+json'')]"

definition get_user_gpg_keys :: "string \<Rightarrow> request" where
  "get_user_gpg_keys token =
     \<lparr>req_method = GET, req_url = ''https://api.github.com/user/gpg_keys'',
      req_headers = api_headers token, req_json = None\<rparr>"

text \<open>Iterating over a Python value, and \<^verbatim>\<open>x.upper()\<close>.\<close>

fun py_iter :: "pyval \<Rightarrow> pyval list outcome" where
  "py_iter (PList xs) = Return xs"
| "py_iter (PDict d) = Return (map (\<lambda>kv. PStr (fst kv)) d)"
| "py_iter (PStr s) = Return (map (\<lambda>c. PStr [c]) s)"
| "py_iter c = Raise (TypeError ''object is not iterable'')"

fun py_upper :: "pyval \<Rightarrow> string outcome" where
  "py_upper (PStr s) = Return (upper s)"
| "py_upper c = Raise (AttributeError ''object has no attribute upper'')"

text \<open>
  \<^verbatim>\<open>any(key.get('fingerprint', '').upper() == fingerprint.upper() for key in existing_keys)\<close>,
  which stops at the first match.
\<close>

fun any_fingerprint :: "string \<Rightarrow> pyval list \<Rightarrow> bool outcome" where
  "any_fingerprint fingerprint [] = Return False"
| "any_fingerprint fingerprint (k # ks) =
     (case getattr_get k ''fingerprint'' (PStr []) of
        Raise e \<Rightarrow> Raise e
      | Return v \<Rightarrow>
          (case py_upper v of
             Raise e \<Rightarrow> Raise e
           | Return u \<Rightarrow>
               if u = upper fingerprint then Return True else any_fingerprint fingerprint ks))"

definition key_exists_in :: "string \<Rightarrow> pyval option \<Rightarrow> bool outcome" where
  "key_exists_in fingerprint body =
     (case response_json body of
        Raise e \<Rightarrow> Raise e
      | Return existing_keys \<Rightarrow>
          (case py_iter existing_keys of
             Raise e \<Rightarrow> Raise e
           | Return ks \<Rightarrow> any_fingerprint fingerprint ks))"

section \<open>The GitHub connection of the command line: \<^verbatim>\<open>connect_to_github\<close>\<close>

text \<open>
  The upload of \<^verbatim>\<open>connect_to_github\<close>: the inner \<^verbatim>\<open>try\<close> with the POST, the wait of five
  seconds and the second listing. A \<^verbatim>\<open>RequestException\<close> returns \<^verbatim>\<open>False\<close>.
\<close>

definition upload_and_verify ::
  "string \<Rightarrow> string \<Rightarrow> string \<Rightarrow> world \<Rightarrow> bool outcome \<times> world" where
  "upload_and_verify pat public_key fingerprint w =
     (case http_request
             \<lparr>req_method = POST, req_url = ''https://api.github.com/user/gpg_keys'',
              req_headers = api_headers pat,
              req_json = Some (PDict [(''armored_public_key'', PStr public_key)])\<rparr> w of
        (Raise e, w1) \<Rightarrow> (Raise e, w1)
      | (Return (code, body, text), w1) \<Rightarrow>
          if code = 403 then (Return False, w1)
          else if code \<noteq> 201 then (Return False, w1)
          else
            (let w2 = w1\<lparr>clock := clock w1 + 5\<rparr> in
             case http_request (get_user_gpg_keys pat) w2 of
               (Raise e, w3) \<Rightarrow> (Raise e, w3)
             | (Return (code2, body2, text2), w3) \<Rightarrow>
                 (case key_exists_in fingerprint body2 of
                    Raise e \<Rightarrow> (Raise e, w3)
                  | Return key_exists \<Rightarrow> (Return key_exists, w3))))"

definition connect_to_github_try :: "string \<Rightarrow> world \<Rightarrow> bool outcome \<times> world" where
  "connect_to_github_try key_id w =
     (case get_gpg_key_details key_id w of
        (Raise e, w1) \<Rightarrow> (Raise e, w1)
      | (Return key_details, w1) \<Rightarrow>
     if \<not> truthy key_details then (Return False, w1) else
     (case subprocess_run [''gpg'', ''--armor'', ''--export'', key_id] TextMode True w1 of
        (Raise e, w2) \<Rightarrow> (Raise e, w2)
      | (Return (rc, out, err), w2) \<Rightarrow>
     (case subprocess_run [''gpg'', ''--fingerprint'', key_id] TextMode True w2 of
        (Raise e, w3) \<Rightarrow> (Raise e, w3)
      | (Return (rc2, out2, err2), w3) \<Rightarrow>
     (case key_fingerprint (split_char LF out2) of
        Raise e \<Rightarrow> (Raise e, w3)
      | Return fingerprint \<Rightarrow>
     (case py_input w3 of
        (Raise e, w4) \<Rightarrow> (Raise e, w4)
      | (Return pat, w4) \<Rightarrow>
     (case http_request (get_user_gpg_keys pat) w4 of
        (Raise e, w5) \<Rightarrow>
          if is_RequestException e then (Return False, w5) else (Raise e, w5)
      | (Return (code, body, text), w5) \<Rightarrow>
          if code = 401 then (Return False, w5)
          else if code = 403 then (Return False, w5)
          else
            (case key_exists_in fingerprint body of
               Raise e \<Rightarrow> (Raise e, w5)
             | Return key_exists \<Rightarrow>
                 if key_exists then (Return True, w5)
                 else
                   (case upload_and_verify pat (strip out) fingerprint w5 of
                      (Raise e, w6) \<Rightarrow>
                        if is_RequestException e then (Return False, w6) else (Raise e, w6)
                    | (Return b, w6) \<Rightarrow> (Return b, w6)))))))))"

text \<open>Both handlers of \<^verbatim>\<open>connect_to_github\<close> return \<^verbatim>\<open>False\<close>.\<close>

definition connect_to_github :: "string \<Rightarrow> world \<Rightarrow> bool \<times> world" where
  "connect_to_github key_id w =
     (case connect_to_github_try key_id w of
        (Return b, w1) \<Rightarrow> (b, w1)
      | (Raise e, w1) \<Rightarrow> (False, w1))"

section \<open>The interactive GitHub connection: \<^verbatim>\<open>connect_github\<close>\<close>

text \<open>The loop over the lines of \<^verbatim>\<open>gpg --with-colons --fingerprint\<close>.\<close>

fun scan_fingerprint_uid :: "string list \<Rightarrow> string \<Rightarrow> string \<Rightarrow> (string \<times> string) outcome" where
  "scan_fingerprint_uid [] fingerprint uid_name = Return (fingerprint, uid_name)"
| "scan_fingerprint_uid (line # ls) fingerprint uid_name =
     (if startswith ''fpr:'' line then
        (case getitem (split_char CHR '':'' line) 9 of
           Raise e \<Rightarrow> Raise e
         | Return f \<Rightarrow> scan_fingerprint_uid ls f uid_name)
      else if startswith ''uid:'' line then
        (let uid_parts = split_char CHR '':'' line in
         if length uid_parts \<ge> 10 then scan_fingerprint_uid ls fingerprint (uid_parts ! 9)
         else scan_fingerprint_uid ls fingerprint uid_name)
      else scan_fingerprint_uid ls fingerprint uid_name)"

text \<open>
  The GitHub user name: \<^verbatim>\<open>github.user\<close>, then \<^verbatim>\<open>user.name\<close>, then the console. The result
  may be empty, and then \<^verbatim>\<open>connect_github\<close> returns \<^verbatim>\<open>False\<close>.
\<close>

definition git_get_or_empty :: "string \<Rightarrow> world \<Rightarrow> string outcome \<times> world" where
  "git_get_or_empty k w =
     (case subprocess_run [''git'', ''config'', ''--get'', k] TextMode True w of
        (Return (rc, out, err), w1) \<Rightarrow> (Return (strip out), w1)
      | (Raise e, w1) \<Rightarrow>
          if is_CalledProcessError e then (Return [], w1) else (Raise e, w1))"

definition find_github_username :: "world \<Rightarrow> string outcome \<times> world" where
  "find_github_username w =
     (case git_get_or_empty ''github.user'' w of
        (Raise e, w1) \<Rightarrow> (Raise e, w1)
      | (Return u1, w1) \<Rightarrow>
          if u1 \<noteq> [] then (Return u1, w1)
          else
            (case git_get_or_empty ''user.name'' w1 of
               (Raise e, w2) \<Rightarrow> (Raise e, w2)
             | (Return u2, w2) \<Rightarrow>
                 if u2 \<noteq> [] then (Return u2, w2)
                 else
                   (case py_input w2 of
                      (Raise e, w3) \<Rightarrow> (Raise e, w3)
                    | (Return line, w3) \<Rightarrow> (Return (strip line), w3))))"

text \<open>
  The update of the Local Config Store that \<^verbatim>\<open>connect_github\<close> makes at both of its
  successful exits.
\<close>

definition record_github_added :: "world \<Rightarrow> bool outcome \<times> world" where
  "record_github_added w =
     (case load_config w of
        (Raise e, w1) \<Rightarrow> (Raise e, w1)
      | (Return config, w1) \<Rightarrow>
     (case setitem config ''github_key_added'' (PBool True) of
        Raise e \<Rightarrow> (Raise e, w1)
      | Return c1 \<Rightarrow>
     (case setitem c1 ''github_configured'' (PBool True) of
        Raise e \<Rightarrow> (Raise e, w1)
      | Return c2 \<Rightarrow>
     (case setitem c2 ''last_config_update'' (PStr (isoformat (clock w1))) of
        Raise e \<Rightarrow> (Raise e, w1)
      | Return c3 \<Rightarrow>
     (case save_config c3 w1 of
        (Raise e, w2) \<Rightarrow> (Raise e, w2)
      | (Return u, w2) \<Rightarrow> (Return True, w2))))))"

text \<open>The loop over the keys already on GitHub: is there one with this key id?\<close>

fun has_key_id :: "string \<Rightarrow> pyval list \<Rightarrow> bool outcome" where
  "has_key_id key_id_hex [] = Return False"
| "has_key_id key_id_hex (gpg_key # ks) =
     (case getattr_get gpg_key ''key_id'' PNone of
        Raise e \<Rightarrow> Raise e
      | Return v \<Rightarrow> if v = PStr key_id_hex then Return True else has_key_id key_id_hex ks)"

definition already_on_github :: "string \<Rightarrow> nat \<Rightarrow> pyval option \<Rightarrow> bool outcome" where
  "already_on_github key_id_hex code body =
     (if code = 200 then
        (case response_json body of
           Raise e \<Rightarrow> Raise e
         | Return existing_keys \<Rightarrow>
             (case py_iter existing_keys of
                Raise e \<Rightarrow> Raise e
              | Return ks \<Rightarrow> has_key_id key_id_hex ks))
      else Return False)"

text \<open>\<^verbatim>\<open>'read:gpg_key' in error_msg\<close> raises when the message is not a container.\<close>

fun contains_check :: "pyval \<Rightarrow> unit outcome" where
  "contains_check (PStr s) = Return ()"
| "contains_check (PList xs) = Return ()"
| "contains_check (PDict d) = Return ()"
| "contains_check c = Raise (TypeError ''argument is not iterable'')"

definition upload_failed :: "pyval option \<Rightarrow> bool outcome" where
  "upload_failed body =
     (case response_json body of
        Raise e \<Rightarrow> Raise e
      | Return v \<Rightarrow>
          (case getattr_get v ''message'' (PStr ''Unknown error'') of
             Raise e \<Rightarrow> Raise e
           | Return error_msg \<Rightarrow>
               (case contains_check error_msg of
                  Raise e \<Rightarrow> Raise e
                | Return u \<Rightarrow> Return False)))"

text \<open>The branch of the answer \<^verbatim>\<open>y\<close>: look for the key, otherwise upload it.\<close>

definition verify_or_add ::
  "string \<Rightarrow> string \<Rightarrow> string \<Rightarrow> string \<Rightarrow> world \<Rightarrow> bool outcome \<times> world" where
  "verify_or_add token github_username key_id_hex public_key w =
     (case http_request
             \<lparr>req_method = GET,
              req_url = ''https://api.github.com/users/'' @ github_username @ ''/gpg_keys'',
              req_headers = api_headers token, req_json = None\<rparr> w of
        (Raise e, w1) \<Rightarrow> (Raise e, w1)
      | (Return (code, body, text), w1) \<Rightarrow>
     (case already_on_github key_id_hex code body of
        Raise e \<Rightarrow> (Raise e, w1)
      | Return True \<Rightarrow> record_github_added w1
      | Return False \<Rightarrow>
     (case http_request
             \<lparr>req_method = POST, req_url = ''https://api.github.com/user/gpg_keys'',
              req_headers = api_headers token,
              req_json = Some (PDict [(''armored_public_key'', PStr public_key),
                (''title'', PStr (''GPG Key '' @ take 8 key_id_hex @ '' - '' @ github_username))])\<rparr>
             w1 of
        (Raise e, w2) \<Rightarrow> (Raise e, w2)
      | (Return (code2, body2, text2), w2) \<Rightarrow>
          if code2 = 201 then record_github_added w2
          else (upload_failed body2, w2))))"

text \<open>
  The confirmation: the prompt with its alarm of 30 seconds and the three answers, inside
  the \<^verbatim>\<open>try\<close> whose handler turns \<^verbatim>\<open>TimeoutError\<close> into the result \<^verbatim>\<open>False\<close>.
\<close>

definition confirm_and_verify ::
  "string \<Rightarrow> string \<Rightarrow> string \<Rightarrow> string \<Rightarrow> world \<Rightarrow> bool outcome \<times> world" where
  "confirm_and_verify token github_username key_id_hex public_key w =
     (case (case input_alarm 30 w of
              (Raise e, w1) \<Rightarrow> (Raise e, w1)
            | (Return line, w1) \<Rightarrow>
                (let user_input = lower line in
                 if user_input = ''y'' then
                   verify_or_add token github_username key_id_hex public_key w1
                 else if user_input = ''n'' then (Return False, w1)
                 else (Return False, w1))) of
        (Raise e, w2) \<Rightarrow> if e = TimeoutError then (Return False, w2) else (Raise e, w2)
      | (Return b, w2) \<Rightarrow> (Return b, w2))"

definition connect_github_try :: "world \<Rightarrow> bool outcome \<times> world" where
  "connect_github_try w =
     (case py_input w of
        (Raise e, w1) \<Rightarrow> (Raise e, w1)
      | (Return line, w1) \<Rightarrow>
     (let token = strip line in
      if token = [] then (Return False, w1) else
     (case get_gpg_key_id w1 of
        (Raise e, w2) \<Rightarrow> (Raise e, w2)
      | (Return None, w2) \<Rightarrow> (Return False, w2)
      | (Return (Some key_id), w2) \<Rightarrow>
     if key_id = [] then (Return False, w2) else
     (case subprocess_run [''gpg'', ''--with-colons'', ''--fingerprint'', key_id] TextMode True w2 of
        (Raise e, w3) \<Rightarrow> (Raise e, w3)
      | (Return (rc, out, err), w3) \<Rightarrow>
     (case scan_fingerprint_uid (splitlines out) [] ''Unknown'' of
        Raise e \<Rightarrow> (Raise e, w3)
      | Return (fingerprint, uid_name) \<Rightarrow>
     (case find_github_username w3 of
        (Raise e, w4) \<Rightarrow> (Raise e, w4)
      | (Return github_username, w4) \<Rightarrow>
     if github_username = [] then (Return False, w4) else
     (case subprocess_run [''gpg'', ''--armor'', ''--export'', ''--no-tty'', ''--batch'', key_id]
             TextMode True w4 of
        (Raise e, w5) \<Rightarrow>
          if is_CalledProcessError e then (Return False, w5) else (Raise e, w5)
      | (Return (rc2, out2, err2), w5) \<Rightarrow>
          (let public_key = strip out2;
               key_id_hex = remove_char CHR ''/'' (remove_char CHR '' '' key_id);
               w6 = countdown (clock w5 + 5) w5 in
           confirm_and_verify token github_username key_id_hex public_key w6))))))))"

fun connection_error :: "exn \<Rightarrow> exn" where
  "connection_error (CalledProcessError cmd rc err) =
     RuntimeError (''Failed to connect to GitHub: '' @ err)"
| "connection_error e = RuntimeError (''Failed to connect to GitHub: '' @ str_exn e)"

definition connect_github :: "world \<Rightarrow> bool outcome \<times> world" where
  "connect_github w =
     (case connect_github_try w of
        (Return b, w1) \<Rightarrow> (Return b, w1)
      | (Raise e, w1) \<Rightarrow> (Raise (connection_error e), w1))"

section \<open>Listing keys and the interactive Git configuration\<close>

text \<open>
  The parsing loop of \<^verbatim>\<open>list_gpg_keys\<close> over the lines of
  \<^verbatim>\<open>gpg --list-secret-keys --with-colons\<close>, with its variables \<^verbatim>\<open>current_key\<close> and \<^verbatim>\<open>keys\<close>.
\<close>

definition new_secret_key :: "string list \<Rightarrow> (string \<times> pyval) list outcome" where
  "new_secret_key parts =
     (case getitem parts 4 of
        Raise e \<Rightarrow> Raise e
      | Return key_id \<Rightarrow>
     (case getitem parts 5 of
        Raise e \<Rightarrow> Raise e
      | Return created \<Rightarrow>
     (case getitem parts 6 of
        Raise e \<Rightarrow> Raise e
      | Return expires \<Rightarrow>
          Return [(''type'', PStr ''secret''), (''key_id'', PStr key_id),
                  (''created'', PStr created), (''expires'', PStr expires),
                  (''uid'', PStr []), (''status'', PStr [])])))"

definition add_uid :: "string list \<Rightarrow> (string \<times> pyval) list \<Rightarrow> (string \<times> pyval) list outcome" where
  "add_uid parts current_key =
     (case getitem parts 9 of
        Raise e \<Rightarrow> Raise e
      | Return uid \<Rightarrow>
          (case getitem parts 1 of
             Raise e \<Rightarrow> Raise e
           | Return st \<Rightarrow>
               Return (dict_set (dict_set current_key ''uid'' (PStr uid)) ''status'' (PStr st))))"

fun parse_secret_keys ::
  "string list \<Rightarrow> (string \<times> pyval) list option \<Rightarrow> pyval list \<Rightarrow> pyval list outcome" where
  "parse_secret_keys [] current_key keys =
     Return (case current_key of None \<Rightarrow> keys | Some k \<Rightarrow> keys @ [PDict k])"
| "parse_secret_keys (line # ls) current_key keys =
     (if line = [] then parse_secret_keys ls current_key keys
      else
        (let parts = split_char CHR '':'' line in
         if hd parts = ''sec'' then
           (let keys1 = (case current_key of None \<Rightarrow> keys | Some k \<Rightarrow> keys @ [PDict k]) in
            case new_secret_key parts of
              Raise e \<Rightarrow> Raise e
            | Return k \<Rightarrow> parse_secret_keys ls (Some k) keys1)
         else if hd parts = ''uid'' then
           (case current_key of
              None \<Rightarrow> parse_secret_keys ls current_key keys
            | Some k \<Rightarrow>
                (case add_uid parts k of
                   Raise e \<Rightarrow> Raise e
                 | Return k1 \<Rightarrow> parse_secret_keys ls (Some k1) keys))
         else parse_secret_keys ls current_key keys))"

text \<open>The printing loop asks Git for the signing key once for every key.\<close>

fun git_check_each :: "pyval list \<Rightarrow> world \<Rightarrow> unit outcome \<times> world" where
  "git_check_each [] w = (Return (), w)"
| "git_check_each (key # ks) w =
     (case subprocess_run [''git'', ''config'', ''--get'', ''user.signingkey''] TextMode True w of
        (Return r, w1) \<Rightarrow> git_check_each ks w1
      | (Raise e, w1) \<Rightarrow>
          if is_CalledProcessError e then git_check_each ks w1 else (Raise e, w1))"

text \<open>
  \<^verbatim>\<open>list_gpg_keys\<close> prints; on every path that does not raise its result is \<^verbatim>\<open>None\<close>: the bare
  \<^verbatim>\<open>return\<close> when there are no keys, the end of the body otherwise. Its handler raises the
  \<^verbatim>\<open>CalledProcessError\<close> again.
\<close>

definition list_gpg_keys :: "world \<Rightarrow> pyval outcome \<times> world" where
  "list_gpg_keys w =
     (case subprocess_run [''gpg'', ''--list-secret-keys'', ''--with-colons''] TextMode True w of
        (Raise e, w1) \<Rightarrow> (Raise e, w1)
      | (Return (rc, out, err), w1) \<Rightarrow>
          (case parse_secret_keys (split_char LF out) None [] of
             Raise e \<Rightarrow> (Raise e, w1)
           | Return keys \<Rightarrow>
               if keys = [] then (Return PNone, w1)
               else
                 (case git_check_each keys w1 of
                    (Raise e, w2) \<Rightarrow> (Raise e, w2)
                  | (Return u, w2) \<Rightarrow> (Return PNone, w2))))"










section \<open>The command line: \<^verbatim>\<open>--connect-github\<close>\<close>

text \<open>
  \<^verbatim>\<open>main\<close> for \<^verbatim>\<open>-cg\<close>, with the value of \<^verbatim>\<open>--key-id\<close> if given. The result is the exit status
  of the process: \<^verbatim>\<open>sys.exit\<close> is not caught by \<^verbatim>\<open>except Exception\<close>, every other
  exception gives status 1.
\<close>

definition ask_key_id :: "world \<Rightarrow> string outcome \<times> world" where
  "ask_key_id w =
     (case list_gpg_keys w of
        (Raise e, w1) \<Rightarrow> (Raise e, w1)
      | (Return u, w1) \<Rightarrow>
          (case py_input w1 of
             (Raise e, w2) \<Rightarrow> (Raise e, w2)
           | (Return line, w2) \<Rightarrow> (Return (strip line), w2)))"

definition main_connect_github_try :: "string option \<Rightarrow> world \<Rightarrow> int outcome \<times> world" where
  "main_connect_github_try key_id_arg w =
     (case check_gpg_installed w of
        (Raise e, w1) \<Rightarrow> (Raise e, w1)
      | (Return False, w1) \<Rightarrow> (Return 1, w1)
      | (Return True, w1) \<Rightarrow>
          (case (case key_id_arg of
                   None \<Rightarrow> ask_key_id w1
                 | Some k \<Rightarrow> if k = [] then ask_key_id w1 else (Return k, w1)) of
             (Raise e, w2) \<Rightarrow> (Raise e, w2)
           | (Return key_id, w2) \<Rightarrow>
               if key_id = [] then (Return 1, w2)
               else (case connect_to_github key_id w2 of (b, w3) \<Rightarrow> (Return 0, w3))))"

definition main_connect_github :: "string option \<Rightarrow> world \<Rightarrow> int \<times> world" where
  "main_connect_github key_id_arg w =
     (case main_connect_github_try key_id_arg w of
        (Return status, w1) \<Rightarrow> (status, w1)
      | (Raise e, w1) \<Rightarrow> (1, w1))"

section \<open>Example environments\<close>

text \<open>
  A machine without the key tool, with Git and an empty Git configuration, no store
  directory, nobody at the console and no network.
\<close>

definition idle_world :: world where
  "idle_world =
     \<lparr>gpg_tool = (\<lambda>n args. NoSuchProgram), git_present = True, git_global = (\<lambda>k. []),
      git_config_writable = True, proc_calls = [], store = NoDir, store_writable = True,
      console_in = [], clock = 0, github_api = (\<lambda>n rq. ConnectionFailed ''offline''),
      http_calls = []\<rparr>"

text \<open>The record that \<^verbatim>\<open>clear_config\<close> writes back through \<^verbatim>\<open>update_key_config\<close>.\<close>

definition unconfigured :: pyval where
  "unconfigured =
     PDict [(''gpg_installed'', PBool True),
            (''key_configured'', PBool True),
            (''git_configured'', PBool False),
            (''gpg_key_id'', PStr []),
            (''github_key_added'', PBool False)]"

text \<open>A store whose file holds a record of an earlier run, and Git set up for signing.\<close>

definition configured_world :: world where
  "configured_world =
     idle_world
       \<lparr>git_global := (\<lambda>k. [])(''user.signingkey'' := [''1A2B3C4D5E6F7A8B''],
                               ''commit.gpgsign'' := [''true'']),
        store := Dir (Some (Doc (PDict [(''gpg_key_id'', PStr ''1A2B3C4D5E6F7A8B''),
                                        (''git_configured'', PBool True)]))) False\<rparr>"

text \<open>
  The same machine when the Git configuration has two lines for \<^verbatim>\<open>user.signingkey\<close>, and
  when the Git configuration cannot be written.
\<close>

definition two_keys_world :: world where
  "two_keys_world =
     configured_world
       \<lparr>git_global := (git_global configured_world)
          (''user.signingkey'' := [''FFFF0000FFFF0000'', ''1A2B3C4D5E6F7A8B''])\<rparr>"

definition readonly_git_world :: world where
  "readonly_git_world = configured_world\<lparr>git_config_writable := False\<rparr>"

text \<open>
  A machine with the key tool and one secret key. The listings have the shape of the
  output of GnuPG 2.4.
\<close>

definition secret_listing :: string where
  "secret_listing =
     ''sec   rsa4096/1A2B3C4D5E6F7A8B 2025-06-18 [SC]'' @ [LF] @
     ''      0F1E2D3C4B5A69788796A5B4C3D2E1F01A2B3C4D'' @ [LF] @
     ''uid                 [ultimate] Jane Doe <jane@example.com>'' @ [LF] @
     ''ssb   rsa4096/99AABBCCDDEEFF00 2025-06-18 [E]'' @ [LF]"

definition fingerprint_listing :: string where
  "fingerprint_listing =
     ''pub   rsa4096 2025-06-18 [SC]'' @ [LF] @
     ''      Key fingerprint = 0F1E 2D3C 4B5A'' @ [LF]"

definition colon_listing :: string where
  "colon_listing =
     ''sec:u:4096:1:1A2B3C4D5E6F7A8B:1750204800:::u:::scESC:::+:::23::0:'' @ [LF] @
     ''fpr:::::::::0F1E2D3C4B5A69788796A5B4C3D2E1F01A2B3C4D:'' @ [LF] @
     ''uid:u::::1750204800::ABCDEF::Jane Doe <jane@example.com>::::::::::0:'' @ [LF]"

definition gpg_with_key :: "nat \<Rightarrow> string list \<Rightarrow> proc_result" where
  "gpg_with_key n args =
     (if args = [''--version''] then Exited 0 (Text ''gpg (GnuPG) 2.4.4'') (Text [])
      else if args = [''--list-secret-keys'', ''--keyid-format=long'']
        then Exited 0 (Text secret_listing) (Text [])
      else if args = [''--list-secret-keys'', ''--with-colons'']
        then Exited 0 (Text colon_listing) (Text [])
      else if args = [''--armor'', ''--export'', ''1A2B3C4D5E6F7A8B'']
        then Exited 0 (Text ''-----BEGIN PGP-----'') (Text [])
      else if args = [''--armor'', ''--export'', ''--no-tty'', ''--batch'', ''1A2B3C4D5E6F7A8B'']
        then Exited 0 (Text ''-----BEGIN PGP-----'') (Text [])
      else if args = [''--fingerprint'', ''1A2B3C4D5E6F7A8B'']
        then Exited 0 (Text fingerprint_listing) (Text [])
      else if args = [''--with-colons'', ''--fingerprint'', ''1A2B3C4D5E6F7A8B'']
        then Exited 0 (Text colon_listing) (Text [])
      else if args = [''--list-keys'', ''--with-colons'', ''1A2B3C4D5E6F7A8B'']
        then Exited 0 (Text colon_listing) (Text [])
      else if args = [''--batch'', ''--yes'', ''--delete-secret-and-public-key'',
                      ''0F1E2D3C4B5A69788796A5B4C3D2E1F01A2B3C4D'']
        then Exited 0 (Text []) (Text [])
      else Exited 2 (Text []) (Text ''gpg: error reading key: No public key''))"

text \<open>The configured machine with that key tool.\<close>

definition key_world :: world where
  "key_world = configured_world\<lparr>gpg_tool := gpg_with_key\<rparr>"

text \<open>The same machine when the key tool disappears after the fourth subprocess call.\<close>

definition gpg_removed_world :: world where
  "gpg_removed_world =
     configured_world\<lparr>gpg_tool := (\<lambda>n args. if n < 4 then gpg_with_key n args else NoSuchProgram)\<rparr>"

text \<open>A key tool that starts and fails.\<close>

definition broken_gpg_world :: world where
  "broken_gpg_world =
     configured_world
       \<lparr>gpg_tool := (\<lambda>n args. Exited 127 (Text [])
                                 (Text ''gpg: error while loading shared libraries''))\<rparr>"











text \<open>
  The machine with the key, a GitHub user name in the Git configuration, and a user who
  types a token after two seconds and then needs 45 seconds for the confirmation.
\<close>

definition timeout_world :: world where
  "timeout_world =
     key_world\<lparr>git_global := (git_global key_world)(''github.user'' := [''janedoe'']),
               console_in := [(2, ''ghp_example''), (45, ''y'')]\<rparr>"

text \<open>A key tool that lists no keys.\<close>

definition no_keys_world :: world where
  "no_keys_world = configured_world\<lparr>gpg_tool := (\<lambda>n args. Exited 0 (Text []) (Text []))\<rparr>"



text \<open>
  A GitHub that lists no key at first, answers the upload with status 201 and lists the
  key afterwards; and the machine with the key, that network and a user who types a token
  and confirms.
\<close>

definition upload_api :: "nat \<Rightarrow> request \<Rightarrow> http_result" where
  "upload_api n rq =
     (if req_method rq = POST then Response 201 (Some (PDict [(''id'', PInt 3)])) []
      else if n = 0 then Response 200 (Some (PList [])) []
      else Response 200
             (Some (PList [PDict [(''fingerprint'', PStr ''0f1e2d3c4b5a69788796a5b4c3d2e1f01a2b3c4d''),
                                  (''key_id'', PStr ''1A2B3C4D5E6F7A8B'')]])) [])"

definition upload_world :: world where
  "upload_world =
     idle_world\<lparr>gpg_tool := gpg_with_key, github_api := upload_api,
                git_global := (\<lambda>k. [])(''github.user'' := [''janedoe'']),
                console_in := [(2, ''ghp_example''), (4, ''y'')]\<rparr>"

section \<open>Properties of the Local Config Store\<close>

lemmas store_defs =
  load_config_def load_config_try_def save_config_def save_config_try_def mkdir_config_dir_def

lemma load_after_save:
  "save_config c w1 = (Return (), w2) \<Longrightarrow> load_config w2 = (Return c, w2)"
  by (auto simp: store_defs split: config_dir.splits option.splits file_content.splits if_splits)

lemma load_config_value:
  "fst (load_config w) =
     Return (case store w of
               NoDir \<Rightarrow> PDict []
             | Dir None other \<Rightarrow> PDict []
             | Dir (Some Malformed) other \<Rightarrow> PDict []
             | Dir (Some (Doc v)) other \<Rightarrow> v)"
  by (auto simp: store_defs split: config_dir.splits option.splits file_content.splits if_splits)

lemma load_config_frame:
  assumes "load_config w = (r, w')"
  shows "git_global w' = git_global w" "http_calls w' = http_calls w"
    "proc_calls w' = proc_calls w" "clock w' = clock w" "console_in w' = console_in w"
    "gpg_tool w' = gpg_tool w" "github_api w' = github_api w" "git_present w' = git_present w"
    "git_config_writable w' = git_config_writable w"
  using assms
  by (auto simp: store_defs split: config_dir.splits option.splits file_content.splits if_splits)

lemma save_config_frame:
  assumes "save_config c w = (r, w')"
  shows "git_global w' = git_global w" "http_calls w' = http_calls w"
    "proc_calls w' = proc_calls w" "clock w' = clock w" "console_in w' = console_in w"
    "gpg_tool w' = gpg_tool w" "github_api w' = github_api w" "git_present w' = git_present w"
    "git_config_writable w' = git_config_writable w"
  using assms
  by (auto simp: store_defs split: config_dir.splits option.splits file_content.splits if_splits)

text \<open>
  C10. Loading never raises, and a malformed or absent file (or an absent directory) gives
  the empty record; whenever the record that was loaded is saved unchanged and the save
  succeeds, loading again returns the same record.
\<close>

theorem load_save_load_roundtrip:
  "(\<exists>c w1. load_config w = (Return c, w1)) \<and>
   (store w = NoDir \<or> (\<exists>other. store w = Dir None other \<or> store w = Dir (Some Malformed) other)
      \<longrightarrow> fst (load_config w) = Return (PDict [])) \<and>
   (\<forall>c w1 w2. load_config w = (Return c, w1) \<and> save_config c w1 = (Return (), w2)
      \<longrightarrow> load_config w2 = (Return c, w2))"
proof (intro conjI allI impI)
  show "\<exists>c w1. load_config w = (Return c, w1)"
    by (auto simp: store_defs split: config_dir.splits option.splits file_content.splits)
next
  assume "store w = NoDir \<or> (\<exists>other. store w = Dir None other \<or> store w = Dir (Some Malformed) other)"
  then show "fst (load_config w) = Return (PDict [])"
    by (auto simp: load_config_value)
next
  fix c w1 w2
  assume "load_config w = (Return c, w1) \<and> save_config c w1 = (Return (), w2)"
  then have "save_config c w1 = (Return (), w2)"
    by simp
  then show "load_config w2 = (Return c, w2)"
    by (rule load_after_save)
qed

theorem load_save_load_roundtrip_witness:
  "store configured_world = Dir (Some (Doc (PDict [(''gpg_key_id'', PStr ''1A2B3C4D5E6F7A8B''),
                                                    (''git_configured'', PBool True)]))) False \<and>
   load_config configured_world =
     (Return (PDict [(''gpg_key_id'', PStr ''1A2B3C4D5E6F7A8B''), (''git_configured'', PBool True)]),
      configured_world) \<and>
   save_config (PDict [(''gpg_key_id'', PStr ''1A2B3C4D5E6F7A8B''), (''git_configured'', PBool True)])
     configured_world = (Return (), configured_world) \<and>
   load_config configured_world =
     (Return (PDict [(''gpg_key_id'', PStr ''1A2B3C4D5E6F7A8B''), (''git_configured'', PBool True)]),
      configured_world) \<and>
   store idle_world = NoDir \<and> fst (load_config idle_world) = Return (PDict [])"
proof -
  let ?c = "PDict [(''gpg_key_id'', PStr ''1A2B3C4D5E6F7A8B''), (''git_configured'', PBool True)]"
  have l: "load_config configured_world = (Return ?c, configured_world)"
    by (simp add: configured_world_def idle_world_def store_defs)
  have s: "save_config ?c configured_world = (Return (), configured_world)"
    by (simp add: configured_world_def idle_world_def store_defs)
  have n: "store idle_world = NoDir"
    by (simp add: idle_world_def)
  from load_save_load_roundtrip [of configured_world] l s
  have "load_config configured_world = (Return ?c, configured_world)"
    by blast
  moreover from load_save_load_roundtrip [of idle_world] n
  have "fst (load_config idle_world) = Return (PDict [])"
    by blast
  ultimately show ?thesis
    using l s n by (simp add: configured_world_def idle_world_def)
qed

subsection \<open>Subprocess calls leave everything but Git and the trace alone\<close>

lemma git_run_frame:
  "git_run args w = (r, w') \<Longrightarrow>
     store w' = store w \<and> store_writable w' = store_writable w \<and> http_calls w' = http_calls w \<and>
     console_in w' = console_in w \<and> clock w' = clock w \<and> gpg_tool w' = gpg_tool w \<and>
     github_api w' = github_api w \<and> git_present w' = git_present w \<and>
     proc_calls w' = proc_calls w \<and> git_config_writable w' = git_config_writable w"
  by (induction args w rule: git_run.induct) (auto split: if_splits)

lemma subprocess_run_frame:
  assumes "subprocess_run argv mode check w = (r, w')"
  shows "store w' = store w" "store_writable w' = store_writable w"
    "http_calls w' = http_calls w" "console_in w' = console_in w" "clock w' = clock w"
    "gpg_tool w' = gpg_tool w" "github_api w' = github_api w" "git_present w' = git_present w"
    "git_config_writable w' = git_config_writable w"
  using assms
  by (auto simp: subprocess_run_def Let_def split: list.splits if_splits prod.splits
      dest!: git_run_frame)


lemma subprocess_run_gpg:
  "\<not> has_nul (''gpg'' # args) \<Longrightarrow>
   subprocess_run (''gpg'' # args) mode check w =
     (completed mode check (''gpg'' # args) (gpg_tool w (length (proc_calls w)) args),
      w\<lparr>proc_calls := proc_calls w @ [''gpg'' # args]\<rparr>)"
  by (simp add: subprocess_run_def Let_def)

lemma subprocess_run_gpg_world:
  "subprocess_run (''gpg'' # args) mode check w = (r, w') \<Longrightarrow>
     w' = w\<lparr>proc_calls := proc_calls w @ [''gpg'' # args]\<rparr>"
  by (auto simp: subprocess_run_def Let_def split: if_splits)

lemma subprocess_run_nul:
  "has_nul (p # args) \<Longrightarrow>
   subprocess_run (p # args) mode check w =
     (Raise (ValueError ''embedded null byte''), w\<lparr>proc_calls := proc_calls w @ [p # args]\<rparr>)"
  by (simp add: subprocess_run_def Let_def)

text \<open>
  What \<^verbatim>\<open>git config --global --unset\<close> leaves when the call returns: the key is removed
  only if it had one value and the file could be written. The exit status says which,
  and the callers that unset do not read it.
\<close>

lemma git_unset_run:
  "subprocess_run (git_unset k) TextMode False w = (Return r, w1) \<Longrightarrow>
     git_global w1 =
       (git_global w)(k := if git_config_writable w \<and> length (git_global w k) = 1 then []
                           else git_global w k) \<and>
     git_config_writable w1 = git_config_writable w \<and>
     proc_calls w1 = proc_calls w @ [[''git'', ''config'', ''--global'', ''--unset'', k]]"
  by (auto simp: subprocess_run_def git_unset_def completed_def decode_def Let_def
      split: if_splits)

lemma remove_config_files_frame:
  assumes "remove_config_files w = (r, w1)"
  shows "git_global w1 = git_global w" "proc_calls w1 = proc_calls w"
    "http_calls w1 = http_calls w" "git_config_writable w1 = git_config_writable w"
  using assms
  by (auto simp: remove_config_files_def unlink_config_file_def rmdir_config_dir_def
      split: config_dir.splits prod.splits outcome.splits if_splits option.splits)

subsection \<open>Clearing the configuration\<close>

lemma clear_config_try_steps:
  assumes "clear_config_try w = (Return (), w')"
  obtains r1 w1 r2 w2 r3 w3 w4 where
    "subprocess_run (git_unset ''user.signingkey'') TextMode False w = (Return r1, w1)"
    "subprocess_run (git_unset ''commit.gpgsign'') TextMode False w1 = (Return r2, w2)"
    "subprocess_run (git_unset ''tag.gpgsign'') TextMode False w2 = (Return r3, w3)"
    "remove_config_files w3 = (Return (), w4)"
    "update_key_config [] [] [] [] False False w4 = (Return (), w')"
  using assms unfolding clear_config_try_def
  by (auto split: prod.splits outcome.splits)

text \<open>
  After a successful \<^verbatim>\<open>clear_config\<close>: every key of the Git configuration except the three
  signing settings is as before, each of the three is removed if it had one value in a
  writable file, and the store holds the record written back.
\<close>

lemma clear_config_try_result:
  assumes "clear_config_try w = (Return (), w')"
  shows "git_global w' k =
           (if k \<in> {''user.signingkey'', ''commit.gpgsign'', ''tag.gpgsign''} \<and>
               git_config_writable w \<and> length (git_global w k) = 1 then []
            else git_global w k)"
    and "git_config_writable w' = git_config_writable w"
    and "load_config w' = (Return unconfigured, w')"
    and "proc_calls w' = proc_calls w @
           [[''git'', ''config'', ''--global'', ''--unset'', ''user.signingkey''],
            [''git'', ''config'', ''--global'', ''--unset'', ''commit.gpgsign''],
            [''git'', ''config'', ''--global'', ''--unset'', ''tag.gpgsign'']]"
proof -
  from assms obtain r1 w1 r2 w2 r3 w3 w4 where
    s1: "subprocess_run (git_unset ''user.signingkey'') TextMode False w = (Return r1, w1)" and
    s2: "subprocess_run (git_unset ''commit.gpgsign'') TextMode False w1 = (Return r2, w2)" and
    s3: "subprocess_run (git_unset ''tag.gpgsign'') TextMode False w2 = (Return r3, w3)" and
    s4: "remove_config_files w3 = (Return (), w4)" and
    s5: "update_key_config [] [] [] [] False False w4 = (Return (), w')"
    by (rule clear_config_try_steps)
  from s5 have g5: "git_global w' = git_global w4" and c5: "proc_calls w' = proc_calls w4"
    and x5: "git_config_writable w' = git_config_writable w4"
    by (auto simp: update_key_config_def dest: save_config_frame)
  note u1 = git_unset_run [OF s1] and u2 = git_unset_run [OF s2] and u3 = git_unset_run [OF s3]
  note f4 = remove_config_files_frame [OF s4]
  from u1 u2 u3 f4 g5
  show "git_global w' k =
           (if k \<in> {''user.signingkey'', ''commit.gpgsign'', ''tag.gpgsign''} \<and>
               git_config_writable w \<and> length (git_global w k) = 1 then []
            else git_global w k)"
    by auto
  from u1 u2 u3 f4 x5 show "git_config_writable w' = git_config_writable w"
    by simp
  from s5 show "load_config w' = (Return unconfigured, w')"
    unfolding update_key_config_def unconfigured_def by (rule load_after_save)
  from u1 u2 u3 f4 c5
  show "proc_calls w' = proc_calls w @
           [[''git'', ''config'', ''--global'', ''--unset'', ''user.signingkey''],
            [''git'', ''config'', ''--global'', ''--unset'', ''commit.gpgsign''],
            [''git'', ''config'', ''--global'', ''--unset'', ''tag.gpgsign'']]"
    by simp
qed

lemma clear_config_result:
  assumes "clear_config w = (Return (), w')"
  shows "git_global w' k =
           (if k \<in> {''user.signingkey'', ''commit.gpgsign'', ''tag.gpgsign''} \<and>
               git_config_writable w \<and> length (git_global w k) = 1 then []
            else git_global w k)"
    and "git_config_writable w' = git_config_writable w"
    and "load_config w' = (Return unconfigured, w')"
    and "proc_calls w' = proc_calls w @
           [[''git'', ''config'', ''--global'', ''--unset'', ''user.signingkey''],
            [''git'', ''config'', ''--global'', ''--unset'', ''commit.gpgsign''],
            [''git'', ''config'', ''--global'', ''--unset'', ''tag.gpgsign'']]"
proof -
  from assms have t: "clear_config_try w = (Return (), w')"
    by (auto simp: clear_config_def split: prod.splits outcome.splits)
  show "git_global w' k =
           (if k \<in> {''user.signingkey'', ''commit.gpgsign'', ''tag.gpgsign''} \<and>
               git_config_writable w \<and> length (git_global w k) = 1 then []
            else git_global w k)"
    by (rule clear_config_try_result(1) [OF t])
  show "git_config_writable w' = git_config_writable w"
    by (rule clear_config_try_result(2) [OF t])
  show "load_config w' = (Return unconfigured, w')"
    by (rule clear_config_try_result(3) [OF t])
  show "proc_calls w' = proc_calls w @
           [[''git'', ''config'', ''--global'', ''--unset'', ''user.signingkey''],
            [''git'', ''config'', ''--global'', ''--unset'', ''commit.gpgsign''],
            [''git'', ''config'', ''--global'', ''--unset'', ''tag.gpgsign'']]"
    by (rule clear_config_try_result(4) [OF t])
qed

lemmas clear_defs =
  clear_config_def clear_config_try_def subprocess_run_def git_unset_def completed_def
  decode_def has_nul_def
  update_key_config_def remove_config_files_def unlink_config_file_def rmdir_config_dir_def

text \<open>
  C1 as the specification states it fails. On the configured machine \<^verbatim>\<open>clear_config\<close>
  succeeds and the next \<^verbatim>\<open>load_config\<close> returns a record that is not empty. On the machine
  where \<^verbatim>\<open>user.signingkey\<close> has two lines, and on the one whose Git configuration cannot be
  written, \<^verbatim>\<open>clear_config\<close> succeeds as well and Git still reports a signing key.
\<close>

theorem clear_then_load_not_empty:
  "fst (clear_config configured_world) = Return () \<and>
   fst (load_config (snd (clear_config configured_world))) \<noteq> Return (PDict []) \<and>
   fst (clear_config two_keys_world) = Return () \<and>
   fst (subprocess_run [''git'', ''config'', ''--get'', ''user.signingkey''] TextMode False
          (snd (clear_config two_keys_world))) = Return (0, ''1A2B3C4D5E6F7A8B'' @ [LF], []) \<and>
   fst (clear_config readonly_git_world) = Return () \<and>
   fst (subprocess_run [''git'', ''config'', ''--get'', ''user.signingkey''] TextMode False
          (snd (clear_config readonly_git_world))) = Return (0, ''1A2B3C4D5E6F7A8B'' @ [LF], [])"
  by (simp add: configured_world_def two_keys_world_def readonly_git_world_def idle_world_def
      clear_defs store_defs LF_def)

text \<open>
  C1, amended. After a successful \<^verbatim>\<open>clear_config\<close> the next \<^verbatim>\<open>load_config\<close> returns the
  record that \<^verbatim>\<open>clear_config\<close> wrote back through \<^verbatim>\<open>update_key_config\<close>, with an empty key
  id and with \<^verbatim>\<open>git_configured\<close> and \<^verbatim>\<open>github_key_added\<close> false. The global Git setting
  \<^verbatim>\<open>user.signingkey\<close> is empty afterwards if it had exactly one value and Git could write
  its configuration (or if it was not set); otherwise it is what it was, since
  \<^verbatim>\<open>clear_config\<close> does not read the exit status of \<^verbatim>\<open>git config --unset\<close>.
\<close>

theorem clear_then_load:
  assumes "clear_config w = (Return (), w')"
  shows "load_config w' =
           (Return (PDict [(''gpg_installed'', PBool True),
                           (''key_configured'', PBool True),
                           (''git_configured'', PBool False),
                           (''gpg_key_id'', PStr []),
                           (''github_key_added'', PBool False)]), w') \<and>
         git_global w' ''user.signingkey'' =
           (if git_config_writable w \<and> length (git_global w ''user.signingkey'') = 1 then []
            else git_global w ''user.signingkey'')"
  using clear_config_result(1) [OF assms, of "''user.signingkey''"] clear_config_result(3) [OF assms]
  by (simp add: unconfigured_def)

theorem clear_then_load_witness:
  "clear_config configured_world = (Return (), snd (clear_config configured_world)) \<and>
   fst (load_config (snd (clear_config configured_world))) = Return unconfigured \<and>
   git_config_writable configured_world \<and>
   git_global configured_world ''user.signingkey'' = [''1A2B3C4D5E6F7A8B''] \<and>
   git_global (snd (clear_config configured_world)) ''user.signingkey'' = []"
proof -
  have c: "clear_config configured_world = (Return (), snd (clear_config configured_world))"
    by (simp add: configured_world_def idle_world_def clear_defs store_defs)
  have g: "git_global configured_world ''user.signingkey'' = [''1A2B3C4D5E6F7A8B'']"
    "git_config_writable configured_world"
    by (simp_all add: configured_world_def idle_world_def)
  from clear_then_load [OF c] c g show ?thesis
    by (simp add: unconfigured_def)
qed

section \<open>Properties of the status aggregator\<close>

lemma dict_get_set:
  "dict_get (dict_set d k v) k' = (if k' = k then Some v else dict_get d k')"
  by (induction d k v rule: dict_set.induct) (auto simp: dict_get_def)

lemma dict_get_update:
  "k' \<notin> fst ` set kvs \<Longrightarrow> dict_get (dict_update d kvs) k' = dict_get d k'"
  by (induction d kvs rule: dict_update.induct) (auto simp: dict_get_set)




lemma has_nul_simps:
  "has_nul [''gpg'', ''--armor'', ''--export'', k] \<longleftrightarrow> CHR 0x00 \<in> set k"
  "has_nul [''gpg'', ''--fingerprint'', k] \<longleftrightarrow> CHR 0x00 \<in> set k"
  "has_nul [''gpg'', ''--list-keys'', ''--with-colons'', k] \<longleftrightarrow> CHR 0x00 \<in> set k"
  "has_nul [''gpg'', ''--batch'', ''--yes'', ''--delete-secret-and-public-key'', k] \<longleftrightarrow>
     CHR 0x00 \<in> set k"
  "\<not> has_nul [''gpg'', ''--version'']"
  "\<not> has_nul list_secret_keys_long"
  by (auto simp: has_nul_def list_secret_keys_long_def)


lemma completed_text:
  "completed TextMode True argv (Exited rc (Text out) (Text err)) =
     (if rc \<noteq> 0 then Raise (CalledProcessError argv rc (universal_newlines err))
      else Return (rc, universal_newlines out, universal_newlines err))"
  by (simp add: completed_def decode_def)


lemma verify_github_key_frame:
  assumes "verify_github_key key_id w = (r, w')"
  shows "store w' = store w" "http_calls w' = http_calls w" "git_global w' = git_global w"
    "gpg_tool w' = gpg_tool w"
  using assms
  by (auto simp: verify_github_key_def verify_github_key_try_def
      split: prod.splits outcome.splits if_splits dest!: subprocess_run_gpg_world)


lemma github_subcheck_raised:
  assumes "verify_github_key key_id w = (Raise e, w1)"
  shows "github_subcheck key_id status w =
           (dict_set (dict_set status ''public_key'' (PDict [])) ''github_configured'' (PBool False), w1)"
  using assms by (simp add: github_subcheck_def)

lemma github_subcheck_frame:
  assumes "github_subcheck key_id status w = (s, w')"
  shows "store w' = store w" "http_calls w' = http_calls w" "git_global w' = git_global w"
proof -
  obtain r w1 where v: "verify_github_key key_id w = (r, w1)"
    by (cases "verify_github_key key_id w")
  with assms have "w' = w1"
    by (auto simp: github_subcheck_def Let_def split: outcome.splits)
  with verify_github_key_frame [OF v]
  show "store w' = store w" "http_calls w' = http_calls w" "git_global w' = git_global w"
    by simp_all
qed

lemma check_gpg_installed_eq:
  "check_gpg_installed w =
     ((case gpg_tool w (length (proc_calls w)) [''--version''] of
         NoSuchProgram \<Rightarrow> Raise (FileNotFoundError ''gpg'')
       | Exited rc out err \<Rightarrow> Return (rc = 0)),
      w\<lparr>proc_calls := proc_calls w @ [[''gpg'', ''--version'']]\<rparr>)"
  by (simp add: check_gpg_installed_def subprocess_run_gpg has_nul_simps completed_def decode_def
      split: proc_result.splits)

lemma get_gpg_key_id_frame:
  assumes "get_gpg_key_id w = (r, w')"
  shows "gpg_tool w' = gpg_tool w" "store w' = store w" "http_calls w' = http_calls w"
    "git_global w' = git_global w" "console_in w' = console_in w" "clock w' = clock w"
    "store_writable w' = store_writable w"
  using assms
  by (auto simp: get_gpg_key_id_def list_secret_keys_long_def
      split: prod.splits outcome.splits if_splits dest!: subprocess_run_gpg_world)

lemma get_gpg_key_details_frame:
  assumes "get_gpg_key_details key_id w = (r, w')"
  shows "gpg_tool w' = gpg_tool w" "store w' = store w" "http_calls w' = http_calls w"
    "git_global w' = git_global w" "console_in w' = console_in w" "clock w' = clock w"
    "store_writable w' = store_writable w"
  using assms
  by (auto simp: get_gpg_key_details_def list_secret_keys_long_def
      split: prod.splits outcome.splits if_splits dest!: subprocess_run_gpg_world)

lemma git_subcheck_frame:
  assumes "git_subcheck key_id status w = (r, w')"
  shows "gpg_tool w' = gpg_tool w" "store w' = store w" "http_calls w' = http_calls w"
  using assms
  by (auto simp: git_subcheck_def split: prod.splits outcome.splits if_splits
      dest: subprocess_run_frame)

lemma git_subcheck_status:
  assumes "git_subcheck key_id status w = (Return s, w')" and "k \<noteq> ''git_configured''"
  shows "dict_get s k = dict_get status k"
  using assms
  by (auto simp: git_subcheck_def dict_get_set split: prod.splits outcome.splits if_splits)

text \<open>The snapshot that \<open>status_of_key\<close> returns has the flags that the sub-check set.\<close>

lemma status_of_key_flag:
  assumes "status_of_key key_id status w = (Return s, w')"
  obtains details w1 status2 w2 status3 w3 where
    "get_gpg_key_details key_id w = (Return details, w1)"
    "git_subcheck key_id
       (dict_set (dict_set status ''key_configured'' (PBool True)) ''key_details'' details) w1 =
       (Return status2, w2)"
    "github_subcheck key_id status2 w2 = (status3, w3)"
    "\<forall>k. k \<noteq> ''github_key_added'' \<and> k \<noteq> ''last_update'' \<longrightarrow> dict_get s k = dict_get status3 k"
proof -
  from assms obtain details w1 status2 w2 status3 w3 added upd where
    a: "get_gpg_key_details key_id w = (Return details, w1)" and
    b: "git_subcheck key_id
       (dict_set (dict_set status ''key_configured'' (PBool True)) ''key_details'' details) w1 =
       (Return status2, w2)" and
    c: "github_subcheck key_id status2 w2 = (status3, w3)" and
    d: "s = dict_update status3 [(''github_key_added'', added), (''last_update'', upd)]"
    unfolding status_of_key_def Let_def
    by (auto split: prod.splits outcome.splits)
  from d have
    "\<forall>k. k \<noteq> ''github_key_added'' \<and> k \<noteq> ''last_update'' \<longrightarrow> dict_get s k = dict_get status3 k"
    by (simp add: dict_get_set)
  with a b c that show thesis
    by blast
qed


text \<open>
  C5. If \<^verbatim>\<open>check_gpg_installed\<close> does not return \<^verbatim>\<open>True\<close> (the key tool exits with an error,
  or cannot be started), then in the snapshot of \<^verbatim>\<open>check_gpg_status\<close> the flags
  \<^verbatim>\<open>key_configured\<close>, \<^verbatim>\<open>git_configured\<close> and \<^verbatim>\<open>github_configured\<close> are absent or false, the only
  subprocess of the run is \<^verbatim>\<open>gpg --version\<close> (no Git call), the Git configuration is
  untouched and no HTTP request is sent.
\<close>

theorem not_installed_short_circuit:
  assumes "fst (check_gpg_installed w) \<noteq> Return True"
  shows "dict_get (fst (check_gpg_status w)) ''key_configured'' \<in> {None, Some (PBool False)} \<and>
         dict_get (fst (check_gpg_status w)) ''git_configured'' \<in> {None, Some (PBool False)} \<and>
         dict_get (fst (check_gpg_status w)) ''github_configured'' \<in> {None, Some (PBool False)} \<and>
         proc_calls (snd (check_gpg_status w)) = proc_calls w @ [[''gpg'', ''--version'']] \<and>
         git_global (snd (check_gpg_status w)) = git_global w \<and>
         http_calls (snd (check_gpg_status w)) = http_calls w"
  using assms
  by (auto simp: check_gpg_status_def check_gpg_status_try_def check_gpg_installed_eq
      error_status_def dict_get_def split: proc_result.splits)

theorem not_installed_short_circuit_witness:
  "fst (check_gpg_installed broken_gpg_world) = Return False \<and>
   fst (check_gpg_status broken_gpg_world) = [(''gpg_installed'', PBool False)] \<and>
   proc_calls (snd (check_gpg_status broken_gpg_world)) = [[''gpg'', ''--version'']] \<and>
   http_calls (snd (check_gpg_status broken_gpg_world)) = []"
proof -
  have h: "fst (check_gpg_installed broken_gpg_world) = Return False"
    by (simp add: broken_gpg_world_def configured_world_def idle_world_def check_gpg_installed_eq)
  then have "fst (check_gpg_installed broken_gpg_world) \<noteq> Return True"
    by simp
  from not_installed_short_circuit [OF this] h show ?thesis
    by (simp add: broken_gpg_world_def configured_world_def idle_world_def
        check_gpg_status_def check_gpg_status_try_def check_gpg_installed_eq)
qed

lemma load_config_dict:
  assumes "fst (load_config w) = Return (PDict d)" and "store w' = store w"
  shows "\<exists>w''. load_config w' = (Return (PDict d), w'')"
proof -
  from assms have "fst (load_config w') = Return (PDict d)"
    by (simp add: load_config_value)
  then show ?thesis
    by (cases "load_config w'") auto
qed

text \<open>
  The run of \<^verbatim>\<open>check_gpg_status\<close> from the sub-check on, when the stored configuration is
  a dictionary: the snapshot is the regular one and has the flag of the sub-check.
\<close>

lemma check_gpg_status_after_subcheck:
  assumes "check_gpg_installed w = (Return True, w1)"
    and "get_gpg_key_id w1 = (Return (Some key_id), w2)"
    and "key_id \<noteq> []"
    and "get_gpg_key_details key_id w2 = (Return details, w3)"
    and "git_subcheck key_id
           (dict_set (dict_set [(''gpg_installed'', PBool True)] ''key_configured'' (PBool True))
              ''key_details'' details) w3 = (Return status2, w4)"
    and "github_subcheck key_id status2 w4 = (status3, w5)"
  shows "dict_get (fst (check_gpg_status w)) ''github_configured'' = Some (PBool False) \<or>
         dict_get (fst (check_gpg_status w)) ''github_configured'' =
           dict_get status3 ''github_configured''"
    and "dict_get (fst (check_gpg_status w)) ''gpg_installed'' \<noteq> None"
    and "fst (load_config w) = Return (PDict d) \<Longrightarrow>
           dict_get (fst (check_gpg_status w)) ''github_configured'' =
             dict_get status3 ''github_configured'' \<and>
           dict_get (fst (check_gpg_status w)) ''error'' = None \<and>
           dict_get (fst (check_gpg_status w)) ''gpg_installed'' = Some (PBool True) \<and>
           dict_get (fst (check_gpg_status w)) ''key_configured'' = Some (PBool True)"
proof -
  obtain r w6 where so: "status_of_key key_id [(''gpg_installed'', PBool True)] w2 = (r, w6)"
    by (cases "status_of_key key_id [(''gpg_installed'', PBool True)] w2")
  have t: "check_gpg_status_try w = (r, w6)"
    using assms(1,2,3) so by (simp add: check_gpg_status_try_def)
  have s2k: "dict_get status2 ''key_configured'' = Some (PBool True)"
    and s2g: "dict_get status2 ''gpg_installed'' = Some (PBool True)"
    and s2e: "dict_get status2 ''error'' = None"
    using git_subcheck_status [OF assms(5)] by (simp_all add: dict_get_set) (simp_all add: dict_get_def)
  have s3: "dict_get status3 ''key_configured'' = Some (PBool True)"
    "dict_get status3 ''gpg_installed'' = Some (PBool True)"
    "dict_get status3 ''error'' = None"
    using assms(6) s2k s2g s2e
    by (auto simp: github_subcheck_def Let_def dict_get_set split: prod.splits outcome.splits)
  have st: "store w5 = store w"
    using assms(1) get_gpg_key_id_frame(2) [OF assms(2)] get_gpg_key_details_frame(2) [OF assms(4)]
      git_subcheck_frame(2) [OF assms(5)] github_subcheck_frame(1) [OF assms(6)]
    by (auto simp: check_gpg_installed_eq)
  have reg: "\<And>s. r = Return s \<Longrightarrow>
      dict_get s ''github_configured'' = dict_get status3 ''github_configured'' \<and>
      dict_get s ''key_configured'' = Some (PBool True) \<and> dict_get s ''error'' = None \<and>
      dict_get s ''gpg_installed'' = Some (PBool True)"
  proof -
    fix s assume "r = Return s"
    with so obtain details' w3' status2' w4' status3' w5' where
      "get_gpg_key_details key_id w2 = (Return details', w3')"
      "git_subcheck key_id
       (dict_set (dict_set [(''gpg_installed'', PBool True)] ''key_configured'' (PBool True))
          ''key_details'' details') w3' = (Return status2', w4')"
      "github_subcheck key_id status2' w4' = (status3', w5')"
      "\<forall>k. k \<noteq> ''github_key_added'' \<and> k \<noteq> ''last_update'' \<longrightarrow> dict_get s k = dict_get status3' k"
      by (auto elim: status_of_key_flag)
    with assms(4,5,6) have
      "\<forall>k. k \<noteq> ''github_key_added'' \<and> k \<noteq> ''last_update'' \<longrightarrow> dict_get s k = dict_get status3 k"
      by simp
    with s3 show "dict_get s ''github_configured'' = dict_get status3 ''github_configured'' \<and>
      dict_get s ''key_configured'' = Some (PBool True) \<and> dict_get s ''error'' = None \<and>
      dict_get s ''gpg_installed'' = Some (PBool True)"
      by simp
  qed
  show "dict_get (fst (check_gpg_status w)) ''github_configured'' = Some (PBool False) \<or>
         dict_get (fst (check_gpg_status w)) ''github_configured'' =
           dict_get status3 ''github_configured''"
    using t reg by (cases r) (auto simp: check_gpg_status_def error_status_def dict_get_def)
  show "dict_get (fst (check_gpg_status w)) ''gpg_installed'' \<noteq> None"
    using t reg by (cases r) (auto simp: check_gpg_status_def error_status_def dict_get_def)
  assume ld: "fst (load_config w) = Return (PDict d)"
  have "\<exists>s. r = Return s"
  proof (cases r)
    case (Raise x)
    from load_config_dict [OF ld st] obtain w'' where "load_config w5 = (Return (PDict d), w'')"
      by blast
    with so Raise assms(4,5,6) show ?thesis
      by (simp add: status_of_key_def)
  next
    case (Return s)
    then show ?thesis by simp
  qed
  then obtain s where "r = Return s"
    by blast
  with t reg show "dict_get (fst (check_gpg_status w)) ''github_configured'' =
             dict_get status3 ''github_configured'' \<and>
           dict_get (fst (check_gpg_status w)) ''error'' = None \<and>
           dict_get (fst (check_gpg_status w)) ''gpg_installed'' = Some (PBool True) \<and>
           dict_get (fst (check_gpg_status w)) ''key_configured'' = Some (PBool True)"
    by (simp add: check_gpg_status_def)
qed




text \<open>
  C8. When \<^verbatim>\<open>check_gpg_status\<close> has found the key tool and a secret key, has read the key
  details and has asked Git, and \<^verbatim>\<open>verify_github_key\<close> then raises, the exception is caught:
  \<^verbatim>\<open>check_gpg_status\<close> returns a snapshot with \<^verbatim>\<open>github_configured\<close> false, and when the stored
  configuration is a dictionary that snapshot is the regular one (no \<^verbatim>\<open>error\<close> entry, the key
  tool and the key reported as found).
\<close>

theorem github_check_failure_downgraded:
  assumes "check_gpg_installed w = (Return True, w1)"
    and "get_gpg_key_id w1 = (Return (Some key_id), w2)"
    and "key_id \<noteq> []"
    and "get_gpg_key_details key_id w2 = (Return details, w3)"
    and "git_subcheck key_id
           (dict_set (dict_set [(''gpg_installed'', PBool True)] ''key_configured'' (PBool True))
              ''key_details'' details) w3 = (Return status2, w4)"
    and "fst (verify_github_key key_id w4) = Raise e"
  shows "dict_get (fst (check_gpg_status w)) ''github_configured'' = Some (PBool False) \<and>
         dict_get (fst (check_gpg_status w)) ''gpg_installed'' \<noteq> None \<and>
         (\<forall>d. fst (load_config w) = Return (PDict d) \<longrightarrow>
            dict_get (fst (check_gpg_status w)) ''error'' = None \<and>
            dict_get (fst (check_gpg_status w)) ''gpg_installed'' = Some (PBool True) \<and>
            dict_get (fst (check_gpg_status w)) ''key_configured'' = Some (PBool True))"
proof -
  obtain w5 where v: "verify_github_key key_id w4 = (Raise e, w5)"
    using assms(6) by (cases "verify_github_key key_id w4") auto
  let ?st3 = "dict_set (dict_set status2 ''public_key'' (PDict [])) ''github_configured'' (PBool False)"
  have gh: "github_subcheck key_id status2 w4 = (?st3, w5)"
    using v by (rule github_subcheck_raised)
  have f: "dict_get ?st3 ''github_configured'' = Some (PBool False)"
    by (simp add: dict_get_set)
  note r = check_gpg_status_after_subcheck [OF assms(1-5) gh]
  from r(1) f have "dict_get (fst (check_gpg_status w)) ''github_configured'' = Some (PBool False)"
    by auto
  moreover note r(2)
  moreover have "\<forall>d. fst (load_config w) = Return (PDict d) \<longrightarrow>
            dict_get (fst (check_gpg_status w)) ''error'' = None \<and>
            dict_get (fst (check_gpg_status w)) ''gpg_installed'' = Some (PBool True) \<and>
            dict_get (fst (check_gpg_status w)) ''key_configured'' = Some (PBool True)"
    using r(3) by blast
  ultimately show ?thesis
    by blast
qed

theorem github_check_failure_downgraded_witness:
  "fst (check_gpg_installed gpg_removed_world) = Return True \<and>
   fst (get_gpg_key_id (snd (check_gpg_installed gpg_removed_world))) =
     Return (Some ''1A2B3C4D5E6F7A8B'') \<and>
   fst (verify_github_key ''1A2B3C4D5E6F7A8B''
          (gpg_removed_world\<lparr>proc_calls :=
             [[''gpg'', ''--version''], list_secret_keys_long, list_secret_keys_long,
              [''git'', ''config'', ''--get'', ''user.signingkey'']]\<rparr>)) =
     Raise (FileNotFoundError ''gpg'') \<and>
   dict_get (fst (check_gpg_status gpg_removed_world)) ''github_configured'' = Some (PBool False) \<and>
   dict_get (fst (check_gpg_status gpg_removed_world)) ''error'' = None \<and>
   dict_get (fst (check_gpg_status gpg_removed_world)) ''key_configured'' = Some (PBool True)"
proof -
  let ?k = "''1A2B3C4D5E6F7A8B''"
  let ?w1 = "snd (check_gpg_installed gpg_removed_world)"
  let ?w2 = "snd (get_gpg_key_id ?w1)"
  let ?w3 = "snd (get_gpg_key_details ?k ?w2)"
  let ?st = "dict_set (dict_set [(''gpg_installed'', PBool True)] ''key_configured'' (PBool True))
              ''key_details'' (case fst (get_gpg_key_details ?k ?w2) of Return d \<Rightarrow> d | Raise e \<Rightarrow> PNone)"
  let ?w4 = "snd (git_subcheck ?k ?st ?w3)"
  have a: "fst (check_gpg_installed gpg_removed_world) = Return True"
    by code_simp
  have b: "fst (get_gpg_key_id ?w1) = Return (Some ?k)"
    by code_simp
  have c: "case fst (get_gpg_key_details ?k ?w2) of Return d \<Rightarrow> True | Raise x \<Rightarrow> False"
    by code_simp
  then obtain d where c': "fst (get_gpg_key_details ?k ?w2) = Return d"
    by (cases "fst (get_gpg_key_details ?k ?w2)") auto
  have e: "case fst (git_subcheck ?k ?st ?w3) of Return s \<Rightarrow> True | Raise x \<Rightarrow> False"
    by code_simp
  then obtain s2 where e': "fst (git_subcheck ?k ?st ?w3) = Return s2"
    by (cases "fst (git_subcheck ?k ?st ?w3)") auto
  have f: "fst (verify_github_key ?k ?w4) = Raise (FileNotFoundError ''gpg'')"
    by code_simp
  have g: "fst (load_config gpg_removed_world) =
             Return (PDict [(''gpg_key_id'', PStr ?k), (''git_configured'', PBool True)])"
    by code_simp
  have h: "fst (verify_github_key ''1A2B3C4D5E6F7A8B''
          (gpg_removed_world\<lparr>proc_calls :=
             [[''gpg'', ''--version''], list_secret_keys_long, list_secret_keys_long,
              [''git'', ''config'', ''--get'', ''user.signingkey'']]\<rparr>)) =
     Raise (FileNotFoundError ''gpg'')"
    by code_simp
  have "dict_get (fst (check_gpg_status gpg_removed_world)) ''github_configured'' = Some (PBool False) \<and>
         dict_get (fst (check_gpg_status gpg_removed_world)) ''gpg_installed'' \<noteq> None \<and>
         (\<forall>d. fst (load_config gpg_removed_world) = Return (PDict d) \<longrightarrow>
            dict_get (fst (check_gpg_status gpg_removed_world)) ''error'' = None \<and>
            dict_get (fst (check_gpg_status gpg_removed_world)) ''gpg_installed'' = Some (PBool True) \<and>
            dict_get (fst (check_gpg_status gpg_removed_world)) ''key_configured'' = Some (PBool True))"
  proof (rule github_check_failure_downgraded [where ?w1.0 = ?w1 and ?w2.0 = ?w2 and ?w3.0 = ?w3
        and ?w4.0 = ?w4 and key_id = ?k and details = d and ?status2.0 = s2])
    show "check_gpg_installed gpg_removed_world = (Return True, ?w1)"
      using a by (simp add: prod_eq_iff)
    show "get_gpg_key_id ?w1 = (Return (Some ?k), ?w2)"
      using b by (simp add: prod_eq_iff)
    show "?k \<noteq> []" by simp
    show "get_gpg_key_details ?k ?w2 = (Return d, ?w3)"
      using c' by (simp add: prod_eq_iff)
    show "git_subcheck ?k
           (dict_set (dict_set [(''gpg_installed'', PBool True)] ''key_configured'' (PBool True))
              ''key_details'' d) ?w3 = (Return s2, ?w4)"
      using e' c' by (simp add: prod_eq_iff)
    show "fst (verify_github_key ?k ?w4) = Raise (FileNotFoundError ''gpg'')"
      by (rule f)
  qed
  with a b g h show ?thesis
    by simp
qed

section \<open>Properties of key deletion\<close>












section \<open>Properties of the interactive GitHub connection\<close>

lemma py_input_frame:
  assumes "py_input w = (r, w')"
  shows "store w' = store w" "http_calls w' = http_calls w" "store_writable w' = store_writable w"
    "git_global w' = git_global w"
  using assms by (auto simp: py_input_def split: list.splits)

lemma countdown_frame:
  "store (countdown t w) = store w \<and> http_calls (countdown t w) = http_calls w \<and>
   console_in (countdown t w) = console_in w \<and> store_writable (countdown t w) = store_writable w \<and>
   git_global (countdown t w) = git_global w"
proof (induction t w rule: countdown.induct)
  case (1 end_time w)
  show ?case
  proof (cases "clock w < end_time")
    case True
    with 1 show ?thesis
      by (subst (1 2 3 4 5) countdown.simps) simp
  next
    case False
    then show ?thesis
      by (subst (1 2 3 4 5) countdown.simps) simp
  qed
qed

lemma subprocess_run_quiet:
  "subprocess_run argv mode check w = (r, w') \<Longrightarrow>
     store w' = store w \<and> http_calls w' = http_calls w \<and> store_writable w' = store_writable w"
  by (simp add: subprocess_run_frame)

lemma py_input_quiet:
  "py_input w = (r, w') \<Longrightarrow>
     store w' = store w \<and> http_calls w' = http_calls w \<and> store_writable w' = store_writable w"
  by (simp add: py_input_frame)

lemma git_get_or_empty_quiet:
  "git_get_or_empty k w = (r, w') \<Longrightarrow>
     store w' = store w \<and> http_calls w' = http_calls w \<and> store_writable w' = store_writable w"
  by (auto simp: git_get_or_empty_def split: prod.splits outcome.splits if_splits
      dest!: subprocess_run_quiet)

lemma find_github_username_frame:
  assumes "find_github_username w = (r, w')"
  shows "store w' = store w" "http_calls w' = http_calls w"
  using assms
  by (auto simp: find_github_username_def split: prod.splits outcome.splits if_splits
      dest!: git_get_or_empty_quiet py_input_quiet)

lemma confirm_timeout:
  assumes "console_in w = (delay, answer) # rest" and "30 \<le> delay"
  shows "confirm_and_verify token github_username key_id_hex public_key w =
           (Return False, w\<lparr>console_in := (delay - 30, answer) # rest, clock := clock w + 30\<rparr>)"
  using assms by (simp add: confirm_and_verify_def input_alarm_def)

lemma confirm_no:
  assumes "console_in w = (delay, ''n'') # rest" and "delay < 30"
  shows "confirm_and_verify token github_username key_id_hex public_key w =
           (Return False, w\<lparr>console_in := rest, clock := clock w + delay\<rparr>)"
  using assms by (simp add: confirm_and_verify_def input_alarm_def lower_def lower_char_def)

text \<open>
  C9. When \<^verbatim>\<open>connect_github\<close> has read the token, found the key, its fingerprint record and
  the user name, exported the key and finished its countdown, and the answer to the
  confirmation prompt takes 30 seconds or more, then \<^verbatim>\<open>connect_github\<close> returns \<^verbatim>\<open>False\<close>
  without raising, the Local Config Store is what it was before the call and no HTTP
  request has been sent. An answer \<^verbatim>\<open>n\<close> given in time at the same prompt has the same
  result and leaves the same store.
\<close>

theorem confirmation_timeout_is_skip:
  assumes "py_input w = (Return line, w1)" and "strip line \<noteq> []"
    and "get_gpg_key_id w1 = (Return (Some key_id), w2)" and "key_id \<noteq> []"
    and "subprocess_run [''gpg'', ''--with-colons'', ''--fingerprint'', key_id] TextMode True w2 =
           (Return (rc, out, err), w3)"
    and "scan_fingerprint_uid (splitlines out) [] ''Unknown'' = Return (fingerprint, uid_name)"
    and "find_github_username w3 = (Return github_username, w4)" and "github_username \<noteq> []"
    and "subprocess_run [''gpg'', ''--armor'', ''--export'', ''--no-tty'', ''--batch'', key_id]
           TextMode True w4 = (Return (rc2, out2, err2), w5)"
    and "console_in w5 = (delay, answer) # rest" and "30 \<le> delay"
  shows "fst (connect_github w) = Return False \<and>
         store (snd (connect_github w)) = store w \<and>
         http_calls (snd (connect_github w)) = http_calls w \<and>
         (\<forall>d. d < 30 \<longrightarrow>
            fst (confirm_and_verify (strip line) github_username
                   (remove_char CHR ''/'' (remove_char CHR '' '' key_id)) (strip out2)
                   ((countdown (clock w5 + 5) w5)\<lparr>console_in := (d, ''n'') # rest\<rparr>)) = Return False \<and>
            store (snd (confirm_and_verify (strip line) github_username
                   (remove_char CHR ''/'' (remove_char CHR '' '' key_id)) (strip out2)
                   ((countdown (clock w5 + 5) w5)\<lparr>console_in := (d, ''n'') # rest\<rparr>))) = store w)"
proof -
  let ?w6 = "countdown (clock w5 + 5) w5"
  let ?hex = "remove_char CHR ''/'' (remove_char CHR '' '' key_id)"
  have c6: "console_in ?w6 = (delay, answer) # rest"
    using assms(10) countdown_frame [of "clock w5 + 5" w5] by simp
  have t: "connect_github_try w = confirm_and_verify (strip line) github_username ?hex (strip out2) ?w6"
    using assms(1-9) by (simp add: connect_github_try_def Let_def)
  have r: "connect_github w =
      (Return False, ?w6\<lparr>console_in := (delay - 30, answer) # rest, clock := clock ?w6 + 30\<rparr>)"
    using t confirm_timeout [OF c6 assms(11)] by (simp add: connect_github_def)
  have s5: "store w5 = store w" and h5: "http_calls w5 = http_calls w"
    using py_input_frame(1,2) [OF assms(1)] get_gpg_key_id_frame(2,3) [OF assms(3)]
      subprocess_run_frame(1,3) [OF assms(5)] find_github_username_frame [OF assms(7)]
      subprocess_run_frame(1,3) [OF assms(9)]
    by simp_all
  have s6: "store ?w6 = store w" and h6: "http_calls ?w6 = http_calls w"
    using s5 h5 countdown_frame [of "clock w5 + 5" w5] by simp_all
  have n: "\<And>d. d < 30 \<Longrightarrow>
      confirm_and_verify (strip line) github_username ?hex (strip out2)
        (?w6\<lparr>console_in := (d, ''n'') # rest\<rparr>) =
      (Return False, ?w6\<lparr>console_in := (d, ''n'') # rest\<rparr>\<lparr>console_in := rest,
          clock := clock (?w6\<lparr>console_in := (d, ''n'') # rest\<rparr>) + d\<rparr>)"
    by (rule confirm_no) simp_all
  from r s6 h6 n show ?thesis
    by simp
qed


theorem confirmation_timeout_is_skip_witness:
  "console_in timeout_world = [(2, ''ghp_example''), (45, ''y'')] \<and>
   fst (connect_github timeout_world) = Return False \<and>
   store (snd (connect_github timeout_world)) = store timeout_world \<and>
   http_calls (snd (connect_github timeout_world)) = [] \<and>
   fst (connect_github (timeout_world\<lparr>console_in := [(2, ''ghp_example''), (4, ''n'')]\<rparr>)) =
     Return False"
proof -
  let ?k = "''1A2B3C4D5E6F7A8B''"
  let ?w1 = "snd (py_input timeout_world)"
  let ?w2 = "snd (get_gpg_key_id ?w1)"
  let ?w3 = "snd (subprocess_run [''gpg'', ''--with-colons'', ''--fingerprint'', ?k] TextMode True ?w2)"
  let ?w4 = "snd (find_github_username ?w3)"
  let ?w5 = "snd (subprocess_run [''gpg'', ''--armor'', ''--export'', ''--no-tty'', ''--batch'', ?k]
                    TextMode True ?w4)"
  have c0: "console_in timeout_world = [(2, ''ghp_example''), (45, ''y'')]"
    by (simp add: timeout_world_def)
  have h0: "http_calls timeout_world = []"
    by (simp add: timeout_world_def key_world_def configured_world_def idle_world_def)
  have a1: "py_input timeout_world = (Return ''ghp_example'', ?w1)"
    by (simp add: prod_eq_iff py_input_def c0)
  have a2: "strip ''ghp_example'' \<noteq> []"
    by code_simp
  have "fst (get_gpg_key_id ?w1) = Return (Some ?k)"
    by code_simp
  then have a3: "get_gpg_key_id ?w1 = (Return (Some ?k), ?w2)"
    by (simp add: prod_eq_iff)
  have "fst (subprocess_run [''gpg'', ''--with-colons'', ''--fingerprint'', ?k] TextMode True ?w2) =
          Return (0, colon_listing, [])"
    by code_simp
  then have a5: "subprocess_run [''gpg'', ''--with-colons'', ''--fingerprint'', ?k] TextMode True ?w2 =
          (Return (0, colon_listing, []), ?w3)"
    by (simp add: prod_eq_iff)
  have a6: "scan_fingerprint_uid (splitlines colon_listing) [] ''Unknown'' =
          Return (''0F1E2D3C4B5A69788796A5B4C3D2E1F01A2B3C4D'', ''Jane Doe <jane@example.com>'')"
    by code_simp
  have "fst (find_github_username ?w3) = Return ''janedoe''"
    by code_simp
  then have a7: "find_github_username ?w3 = (Return ''janedoe'', ?w4)"
    by (simp add: prod_eq_iff)
  have "fst (subprocess_run [''gpg'', ''--armor'', ''--export'', ''--no-tty'', ''--batch'', ?k]
                    TextMode True ?w4) = Return (0, ''-----BEGIN PGP-----'', [])"
    by code_simp
  then have a9: "subprocess_run [''gpg'', ''--armor'', ''--export'', ''--no-tty'', ''--batch'', ?k]
                    TextMode True ?w4 = (Return (0, ''-----BEGIN PGP-----'', []), ?w5)"
    by (simp add: prod_eq_iff)
  have a10: "console_in ?w5 = (45, ''y'') # []"
    by code_simp
  have a11: "(30::nat) \<le> 45"
    by simp
  have n: "fst (connect_github (timeout_world\<lparr>console_in := [(2, ''ghp_example''), (4, ''n'')]\<rparr>)) =
     Return False"
    by code_simp
  note t = confirmation_timeout_is_skip [OF a1 a2 a3 _ a5 a6 a7 _ a9 a10 a11]
  have "fst (connect_github timeout_world) = Return False \<and>
        store (snd (connect_github timeout_world)) = store timeout_world \<and>
        http_calls (snd (connect_github timeout_world)) = http_calls timeout_world"
    using t by simp
  with c0 h0 n show ?thesis
    by simp
qed

section \<open>Properties of the key listing and of \<^verbatim>\<open>git_config\<close>\<close>



text \<open>
  C4. When the key tool lists no secret keys, \<^verbatim>\<open>list_gpg_keys\<close> does not raise, but what it
  returns is \<^verbatim>\<open>None\<close> and not an empty list.
\<close>

theorem list_gpg_keys_no_keys:
  "gpg_tool no_keys_world 0 [''--list-secret-keys'', ''--with-colons''] =
     Exited 0 (Text []) (Text []) \<and>
   parse_secret_keys (split_char LF []) None [] = Return [] \<and>
   fst (list_gpg_keys no_keys_world) = Return PNone \<and>
   fst (list_gpg_keys no_keys_world) \<noteq> Return (PList [])"
  by (simp add: no_keys_world_def configured_world_def idle_world_def list_gpg_keys_def
      subprocess_run_gpg has_nul_def completed_text)


section \<open>Properties of the GitHub connection of the command line\<close>

lemma http_request_quiet:
  "http_request rq w = (r, w') \<Longrightarrow>
     store w' = store w \<and> store_writable w' = store_writable w"
  by (auto simp: http_request_def Let_def split: http_result.splits)

lemma get_gpg_key_details_quiet:
  "get_gpg_key_details k w = (r, w') \<Longrightarrow>
     store w' = store w \<and> store_writable w' = store_writable w"
  by (simp add: get_gpg_key_details_frame)

lemma upload_and_verify_quiet:
  "upload_and_verify pat pk fp w = (r, w') \<Longrightarrow>
     store w' = store w \<and> store_writable w' = store_writable w"
  unfolding upload_and_verify_def Let_def
  by (auto split: prod.splits outcome.splits if_splits dest!: http_request_quiet)

lemma connect_to_github_try_quiet:
  "connect_to_github_try key_id w = (r, w') \<Longrightarrow>
     store w' = store w \<and> store_writable w' = store_writable w"
  unfolding connect_to_github_try_def
  by (auto split: prod.splits outcome.splits if_splits
      dest!: http_request_quiet get_gpg_key_details_quiet subprocess_run_quiet py_input_quiet
        upload_and_verify_quiet)

text \<open>\<^verbatim>\<open>connect_to_github\<close> never reads or writes the Local Config Store.\<close>

lemma connect_to_github_keeps_store:
  "store (snd (connect_to_github key_id w)) = store w"
proof -
  obtain r w' where t: "connect_to_github_try key_id w = (r, w')"
    by (cases "connect_to_github_try key_id w")
  from connect_to_github_try_quiet [OF t] t show ?thesis
    by (cases r) (simp_all add: connect_to_github_def)
qed


text \<open>
  C2. The run \<^verbatim>\<open>-cg -k 1A2B3C4D5E6F7A8B\<close> of the command line, which calls
  \<^verbatim>\<open>connect_to_github\<close>: the upload is answered with status 201 and the store is still
  absent afterwards, so the configuration that is loaded has no \<^verbatim>\<open>github_key_added\<close> and no
  \<^verbatim>\<open>last_config_update\<close>. On the same machine \<^verbatim>\<open>connect_github\<close>, which the command line does
  not call, stores both.
\<close>

theorem cli_connect_github_does_not_persist:
  "map req_method (http_calls (snd (main_connect_github (Some ''1A2B3C4D5E6F7A8B'') upload_world))) =
     [GET, POST, GET] \<and>
   github_api upload_world 1
     (http_calls (snd (main_connect_github (Some ''1A2B3C4D5E6F7A8B'') upload_world)) ! 1) =
     Response 201 (Some (PDict [(''id'', PInt 3)])) [] \<and>
   fst (main_connect_github (Some ''1A2B3C4D5E6F7A8B'') upload_world) = 0 \<and>
   store (snd (main_connect_github (Some ''1A2B3C4D5E6F7A8B'') upload_world)) = NoDir \<and>
   fst (load_config (snd (main_connect_github (Some ''1A2B3C4D5E6F7A8B'') upload_world))) =
     Return (PDict []) \<and>
   fst (connect_github upload_world) = Return True \<and>
   fst (load_config (snd (connect_github upload_world))) =
     Return (PDict [(''github_key_added'', PBool True), (''github_configured'', PBool True),
                    (''last_config_update'', PStr ''T11'')])"
  by code_simp

end
